theory Spec2Isabelle
  imports Complex_Main
begin

section \<open>Values of the renderer\<close>

text \<open>
  The model follows \<^verbatim>\<open>src/renderer/contexts/AudioContext.js\<close>: the reducer
  \<^verbatim>\<open>audioReducer\<close>, the queue and transport callbacks of \<^verbatim>\<open>AudioProvider\<close>
  and the handlers of the events socket.

  A value that \<^verbatim>\<open>JSON.parse\<close> can produce. An object is the list of its own properties;
  a property is read with \<open>get_prop\<close>, and a missing property (\<^verbatim>\<open>undefined\<close>) is \<open>None\<close>.
  Numbers are the rationals: the code stores them, tests them for zero and takes a floor,
  and does no other arithmetic on them.
\<close>

datatype json =
    JNull
  | JBool bool
  | JNum rat
  | JStr string
  | JArr "json list"
  | JObj "(string \<times> json) list"

definition get_prop :: "(string \<times> json) list \<Rightarrow> string \<Rightarrow> json option" where
  "get_prop obj k = map_of obj k"

text \<open>Truthiness of a value; \<^verbatim>\<open>undefined\<close> is falsy.\<close>

fun truthy :: "json option \<Rightarrow> bool" where
  "truthy None = False"
| "truthy (Some JNull) = False"
| "truthy (Some (JBool b)) = b"
| "truthy (Some (JNum r)) = (r \<noteq> 0)"
| "truthy (Some (JStr s)) = (s \<noteq> [])"
| "truthy (Some (JArr xs)) = True"
| "truthy (Some (JObj kvs)) = True"

text \<open>\<^verbatim>\<open>a || b\<close>.\<close>

definition js_or :: "json option \<Rightarrow> json option \<Rightarrow> json option" where
  "js_or a b = (if truthy a then a else b)"

text \<open>
  \<^verbatim>\<open>String(v)\<close>: a string is returned as it is. The conversion of every other value is the
  host's and is a parameter \<open>toStr\<close>; it answers \<open>None\<close> where the host throws a TypeError
  (an object whose own \<^verbatim>\<open>toString\<close> and \<^verbatim>\<open>valueOf\<close> give no primitive).
\<close>

definition js_String :: "(json \<Rightarrow> string option) \<Rightarrow> json option \<Rightarrow> string option" where
  "js_String toStr v =
     (case v of
        Some (JStr s) \<Rightarrow> Some s
      | Some w \<Rightarrow> toStr w
      | None \<Rightarrow> Some ''undefined'')"

text \<open>
  \<^verbatim>\<open>toLowerCase\<close> on the letters A to Z. No character outside ASCII lowers to a letter of
  the words the handlers compare with.
\<close>

definition lower_char :: "char \<Rightarrow> char" where
  "lower_char c =
     (let n = (of_char c :: nat) in if 65 \<le> n \<and> n \<le> 90 then char_of (n + 32) else c)"

definition toLowerCase :: "string \<Rightarrow> string" where
  "toLowerCase s = map lower_char s"

text \<open>
  A track object as the backend delivers it: \<^verbatim>\<open>id\<close>, \<^verbatim>\<open>title\<close> and \<^verbatim>\<open>path\<close> are strings,
  \<^verbatim>\<open>duration\<close> is a number or absent.
\<close>

record track =
  t_id :: string
  t_title :: string
  t_path :: string
  t_duration :: "rat option"

record playlist =
  p_id :: string
  p_name :: string
  p_tracks :: "string list"
  p_isLiked :: bool

text \<open>\<^verbatim>\<open>xs[i]\<close>: \<^verbatim>\<open>undefined\<close> outside the array.\<close>

definition nth_js :: "'a list \<Rightarrow> int \<Rightarrow> 'a option" where
  "nth_js xs i = (if 0 \<le> i \<and> i < int (length xs) then Some (xs ! nat i) else None)"

text \<open>\<^verbatim>\<open>xs.filter((_, index) => index !== i)\<close>.\<close>

definition filter_index :: "'a list \<Rightarrow> int \<Rightarrow> 'a list" where
  "filter_index xs i = map snd (filter (\<lambda>(k, x). int k \<noteq> i) (enumerate 0 xs))"

section \<open>The reducer\<close>

record audio_state =
  currentTrack :: "track option"
  isPlaying :: bool
  volume :: json
  progress :: rat
  duration :: rat
  queue :: "track list"
  currentQueueIndex :: int
  repeatMode :: string
  shuffle :: bool
  library :: "track list"
  playlists :: "playlist list"
  loading :: bool
  error :: "string option"

definition initialState :: audio_state where
  "initialState =
     \<lparr> currentTrack = None, isPlaying = False, volume = JNum (7 / 10), progress = 0,
       duration = 0, queue = [], currentQueueIndex = - 1, repeatMode = ''none'',
       shuffle = False, library = [], playlists = [], loading = False, error = None \<rparr>"

text \<open>
  The actions. \<^verbatim>\<open>SET_QUEUE\<close> carries \<^verbatim>\<open>startIndex\<close>, which is \<open>None\<close> when it is not a number.
\<close>

datatype action =
    SET_CURRENT_TRACK "track option"
  | SET_PLAYBACK_STATE bool
  | SET_VOLUME json
  | SET_PROGRESS rat
  | SET_DURATION rat
  | SET_QUEUE "track list" "int option"
  | ADD_TO_QUEUE track
  | REMOVE_FROM_QUEUE int
  | CLEAR_QUEUE
  | SET_REPEAT_MODE string
  | SET_SHUFFLE bool
  | SET_LIBRARY "track list"
  | SET_PLAYLISTS "playlist list"
  | SET_QUEUE_INDEX int
  | SET_LOADING bool
  | SET_ERROR "string option"

fun audioReducer :: "audio_state \<Rightarrow> action \<Rightarrow> audio_state" where
  "audioReducer state (SET_CURRENT_TRACK payload) = state\<lparr>currentTrack := payload\<rparr>"
| "audioReducer state (SET_PLAYBACK_STATE payload) = state\<lparr>isPlaying := payload\<rparr>"
| "audioReducer state (SET_VOLUME payload) = state\<lparr>volume := payload\<rparr>"
| "audioReducer state (SET_PROGRESS payload) = state\<lparr>progress := payload\<rparr>"
| "audioReducer state (SET_DURATION payload) = state\<lparr>duration := payload\<rparr>"
| "audioReducer state (SET_QUEUE payload startIndex) =
     state\<lparr>queue := payload,
           currentQueueIndex :=
             (case startIndex of
                Some i \<Rightarrow> i
              | None \<Rightarrow> if length payload > 0 then 0 else - 1)\<rparr>"
| "audioReducer state (ADD_TO_QUEUE payload) =
     (if list_ex (\<lambda>queueTrack. t_id queueTrack = t_id payload) (queue state) then state
      else
        let queueWasEmpty = (length (queue state) = 0);
            newQueue = queue state @ [payload]
        in state\<lparr>queue := newQueue,
                 currentQueueIndex := (if queueWasEmpty then 0 else currentQueueIndex state),
                 currentTrack := (if queueWasEmpty then Some payload else currentTrack state)\<rparr>)"
| "audioReducer state (REMOVE_FROM_QUEUE payload) =
     (let newQueue = filter_index (queue state) payload
      in state\<lparr>queue := newQueue,
               currentQueueIndex :=
                 (if length newQueue = 0 then - 1
                  else if currentQueueIndex state \<ge> int (length newQueue)
                       then int (length newQueue) - 1
                       else currentQueueIndex state)\<rparr>)"
| "audioReducer state CLEAR_QUEUE =
     state\<lparr>queue := [], currentQueueIndex := - 1, currentTrack := None\<rparr>"
| "audioReducer state (SET_REPEAT_MODE payload) = state\<lparr>repeatMode := payload\<rparr>"
| "audioReducer state (SET_SHUFFLE payload) = state\<lparr>shuffle := payload\<rparr>"
| "audioReducer state (SET_LIBRARY payload) = state\<lparr>library := payload\<rparr>"
| "audioReducer state (SET_PLAYLISTS payload) = state\<lparr>playlists := payload\<rparr>"
| "audioReducer state (SET_QUEUE_INDEX payload) = state\<lparr>currentQueueIndex := payload\<rparr>"
| "audioReducer state (SET_LOADING payload) = state\<lparr>loading := payload\<rparr>"
| "audioReducer state (SET_ERROR payload) = state\<lparr>error := payload\<rparr>"

text \<open>A run of \<^verbatim>\<open>dispatch\<close> calls, in order.\<close>

definition dispatch :: "audio_state \<Rightarrow> action list \<Rightarrow> audio_state" where
  "dispatch state as = foldl audioReducer state as"

section \<open>Transport and queue callbacks\<close>

text \<open>
  A callback reads the state, awaits one call of \<^verbatim>\<open>window.electronAPI\<close> and dispatches.
  The awaited call is a parameter: the bridge is absent (\<open>NoApi\<close>, the call is skipped), the
  promise resolves (\<open>Resolved\<close>), or it rejects with an error message (\<open>Rejected\<close>). A callback
  returns the new state and what it asked of the outside: the calls over the bridge and the
  error notifications. Console output is left out.
\<close>

datatype api = NoApi | Resolved | Rejected string

datatype effect =
    PlayTrackCall string
  | PausePlaybackCall
  | ResumePlaybackCall
  | GetLibraryCall
  | NotifyError string string

definition pausePlayback :: "api \<Rightarrow> audio_state \<Rightarrow> audio_state \<times> effect list" where
  "pausePlayback a state =
     (case a of
        NoApi \<Rightarrow> (dispatch state [SET_PLAYBACK_STATE False], [])
      | Resolved \<Rightarrow> (dispatch state [SET_PLAYBACK_STATE False], [PausePlaybackCall])
      | Rejected msg \<Rightarrow>
          (dispatch state [SET_ERROR (Some msg)],
           [PausePlaybackCall, NotifyError ''Pause failed'' msg]))"



text \<open>
  The tail that \<^verbatim>\<open>nextTrack\<close> and \<^verbatim>\<open>previousTrack\<close> share, from the read of the queue at
  the chosen index to the end of the \<^verbatim>\<open>try\<close>: nothing happens when the queue has no track
  there; otherwise the track is sent to the backend and, unless that call rejects, becomes
  the current one.
\<close>

definition play_from_queue ::
  "string \<Rightarrow> api \<Rightarrow> audio_state \<Rightarrow> int \<Rightarrow> audio_state \<times> effect list" where
  "play_from_queue title a state i =
     (case nth_js (queue state) i of
        None \<Rightarrow> (state, [])
      | Some t \<Rightarrow>
          (let started =
                 dispatch state
                   [SET_QUEUE_INDEX i, SET_CURRENT_TRACK (Some t), SET_PROGRESS 0,
                    SET_DURATION (case t_duration t of Some d \<Rightarrow> d | None \<Rightarrow> 0),
                    SET_PLAYBACK_STATE True]
           in case a of
                NoApi \<Rightarrow> (started, [])
              | Resolved \<Rightarrow> (started, [PlayTrackCall (t_path t)])
              | Rejected msg \<Rightarrow>
                  (dispatch state [SET_ERROR (Some msg)],
                   [PlayTrackCall (t_path t), NotifyError title msg])))"

text \<open>
  The shuffle loop of \<^verbatim>\<open>nextTrack\<close>:
  \<^verbatim>\<open>do { nextIndex = Math.floor(Math.random() * n) } while (nextIndex === cur)\<close>.
  The results of \<^verbatim>\<open>Math.random()\<close> are the list \<open>draws\<close>, one per turn of the loop; the loop
  has not ended when the list is used up, and the answer is then \<open>None\<close>. The product is
  the host's product of two doubles, rounded as the host rounds it, and is the parameter
  \<open>fmul\<close>: \<open>fmul r n\<close> is the double that \<^verbatim>\<open>r * n\<close> evaluates to. A double is a rational,
  and \<^verbatim>\<open>Math.floor\<close> of it is its floor.
\<close>

fun shuffle_pick :: "(rat \<Rightarrow> nat \<Rightarrow> rat) \<Rightarrow> rat list \<Rightarrow> nat \<Rightarrow> int \<Rightarrow> int option" where
  "shuffle_pick fmul [] n cur = None"
| "shuffle_pick fmul (r # rs) n cur =
     (let nextIndex = \<lfloor>fmul r n\<rfloor>
      in if nextIndex = cur then shuffle_pick fmul rs n cur else Some nextIndex)"

text \<open>
  \<^verbatim>\<open>nextTrack\<close>. \<open>None\<close>: the shuffle loop is still running after all of \<open>draws\<close>.
\<close>

definition nextTrack ::
  "(rat \<Rightarrow> nat \<Rightarrow> rat) \<Rightarrow> rat list \<Rightarrow> api \<Rightarrow> audio_state
     \<Rightarrow> (audio_state \<times> effect list) option" where
  "nextTrack fmul draws a state =
     (if length (queue state) = 0 then Some (state, [])
      else if repeatMode state = ''one'' then
        Some (play_from_queue ''Next track failed'' a state (currentQueueIndex state))
      else if shuffle state then
        (if length (queue state) > 1 then
           (case shuffle_pick fmul draws (length (queue state)) (currentQueueIndex state) of
              None \<Rightarrow> None
            | Some nextIndex \<Rightarrow> Some (play_from_queue ''Next track failed'' a state nextIndex))
         else Some (play_from_queue ''Next track failed'' a state (currentQueueIndex state)))
      else
        (let nextIndex = currentQueueIndex state + 1
         in if nextIndex \<ge> int (length (queue state)) then
              (if repeatMode state = ''all''
               then Some (play_from_queue ''Next track failed'' a state 0)
               else Some (state, []))
            else Some (play_from_queue ''Next track failed'' a state nextIndex)))"

definition previousTrack :: "api \<Rightarrow> audio_state \<Rightarrow> audio_state \<times> effect list" where
  "previousTrack a state =
     (if length (queue state) = 0 then (state, [])
      else
        let prevIndex = currentQueueIndex state - 1;
            prevIndex =
              (if prevIndex < 0 then
                 (if repeatMode state = ''all'' then int (length (queue state)) - 1
                  else currentQueueIndex state)
               else prevIndex)
        in play_from_queue ''Previous track failed'' a state prevIndex)"

text \<open>\<^verbatim>\<open>xs.findIndex(p)\<close>: the first index whose element satisfies \<open>p\<close>, or \<open>-1\<close>.\<close>

definition findIndex :: "('a \<Rightarrow> bool) \<Rightarrow> 'a list \<Rightarrow> int" where
  "findIndex p xs =
     (case find (\<lambda>(k, x). p x) (enumerate 0 xs) of
        None \<Rightarrow> - 1
      | Some (k, x) \<Rightarrow> int k)"

text \<open>
  \<^verbatim>\<open>playTrack\<close>, the other caller of \<^verbatim>\<open>SET_QUEUE\<close>. A falsy argument is \<open>None\<close>; a track
  whose path is the empty string is ignored as well.
\<close>

definition playTrack :: "api \<Rightarrow> track option \<Rightarrow> audio_state \<Rightarrow> audio_state \<times> effect list" where
  "playTrack a t state =
     (case t of
        None \<Rightarrow> (state, [])
      | Some track \<Rightarrow>
          if t_path track = [] then (state, [])
          else if loading state then (state, [])
          else if map_option t_id (currentTrack state) = Some (t_id track) \<and> isPlaying state
          then (state, [])
          else
            let existingIndex = findIndex (\<lambda>queued. t_id queued = t_id track) (queue state);
                queuePayload =
                  (if existingIndex = - 1 then queue state @ [track] else queue state);
                targetIndex =
                  (if existingIndex = - 1 then int (length queuePayload) - 1 else existingIndex);
                before = [SET_ERROR None, SET_LOADING True];
                started =
                  [if existingIndex = - 1 then SET_QUEUE queuePayload (Some targetIndex)
                   else SET_QUEUE_INDEX targetIndex,
                   SET_CURRENT_TRACK (Some track), SET_PLAYBACK_STATE True, SET_PROGRESS 0,
                   SET_DURATION (case t_duration track of Some d \<Rightarrow> d | None \<Rightarrow> 0)];
                after = [SET_LOADING False]
            in (case a of
                  NoApi \<Rightarrow> (dispatch state (before @ started @ after), [])
                | Resolved \<Rightarrow>
                    (dispatch state (before @ started @ after), [PlayTrackCall (t_path track)])
                | Rejected msg \<Rightarrow>
                    (dispatch state (before @ [SET_ERROR (Some msg)] @ after),
                     [PlayTrackCall (t_path track), NotifyError ''Playback error'' msg])))"

text \<open>\<^verbatim>\<open>addToQueue\<close>: a falsy argument (\<open>None\<close>) is ignored.\<close>

definition addToQueue :: "track option \<Rightarrow> audio_state \<Rightarrow> audio_state" where
  "addToQueue t state =
     (case t of None \<Rightarrow> state | Some tr \<Rightarrow> dispatch state [ADD_TO_QUEUE tr])"

definition removeFromQueue :: "int \<Rightarrow> audio_state \<Rightarrow> audio_state" where
  "removeFromQueue index state =
     (let newQueue = filter_index (queue state) index;
          nextIndex =
            (if length newQueue = 0 then - 1
             else min (currentQueueIndex state) (int (length newQueue) - 1))
      in dispatch state
           [SET_QUEUE newQueue (Some nextIndex),
            SET_CURRENT_TRACK (if nextIndex \<ge> 0 then nth_js newQueue nextIndex else None)])"

definition clearQueue :: "audio_state \<Rightarrow> audio_state" where
  "clearQueue state = dispatch state [CLEAR_QUEUE]"

text \<open>
  The invariant of the playback queue: the cursor is \<open>-1\<close> on an empty queue and an index
  of the queue otherwise.
\<close>

definition cursor_ok :: "audio_state \<Rightarrow> bool" where
  "cursor_ok state =
     (if queue state = [] then currentQueueIndex state = - 1
      else 0 \<le> currentQueueIndex state \<and> currentQueueIndex state < int (length (queue state)))"

section \<open>The events socket\<close>

text \<open>
  \<^verbatim>\<open>findTrack\<close> searches the library (\<^verbatim>\<open>libraryRef.current\<close>, which mirrors the state's
  library) by id, then by path. \<^verbatim>\<open>item.id === trackId\<close> holds when the event's value is
  the string that is the item's id.
\<close>

definition findTrack :: "track list \<Rightarrow> json option \<Rightarrow> json option \<Rightarrow> track option" where
  "findTrack lib trackId trackPath =
     (case (if truthy trackId then find (\<lambda>item. Some (JStr (t_id item)) = trackId) lib
            else None) of
        Some match \<Rightarrow> Some match
      | None \<Rightarrow>
          if truthy trackPath then find (\<lambda>item. Some (JStr (t_path item)) = trackPath) lib
          else None)"

text \<open>
  \<^verbatim>\<open>handlePlaybackEvent\<close>. \<open>None\<close>: \<^verbatim>\<open>String(payload.state || '')\<close> threw, before any
  dispatch.
\<close>

definition handlePlaybackEvent ::
  "(json \<Rightarrow> string option) \<Rightarrow> (string \<times> json) list \<Rightarrow> audio_state \<Rightarrow> audio_state option" where
  "handlePlaybackEvent toStr payload state =
     (case js_String toStr (js_or (get_prop payload ''state'') (Some (JStr []))) of
        None \<Rightarrow> None
      | Some str \<Rightarrow>
          let playbackState = toLowerCase str;
              trackPath =
                js_or (js_or (get_prop payload ''track_path'') (get_prop payload ''trackPath''))
                  (Some JNull);
              trackId =
                js_or (js_or (get_prop payload ''track_id'') (get_prop payload ''trackId''))
                  (Some JNull);
              track = findTrack (library state) trackId trackPath;
              eventDuration =
                (case get_prop payload ''track_duration'' of
                   Some (JNum d) \<Rightarrow> Some d
                 | _ \<Rightarrow>
                     (case get_prop payload ''trackDuration'' of
                        Some (JNum d) \<Rightarrow> Some d
                      | _ \<Rightarrow> None));
              effectiveDuration =
                (case track of
                   Some t \<Rightarrow> (case t_duration t of Some d \<Rightarrow> Some d | None \<Rightarrow> eventDuration)
                 | None \<Rightarrow> eventDuration);
              setVolume =
                (case get_prop payload ''volume'' of
                   None \<Rightarrow> []
                 | Some JNull \<Rightarrow> []
                 | Some v \<Rightarrow> [SET_VOLUME v]);
              setTrack = (case track of Some t \<Rightarrow> [SET_CURRENT_TRACK (Some t)] | None \<Rightarrow> []);
              setDuration =
                (case effectiveDuration of Some d \<Rightarrow> [SET_DURATION d] | None \<Rightarrow> [])
          in Some (dispatch state
               (setVolume @
                (if playbackState = ''playing'' then
                   [SET_PLAYBACK_STATE True] @ setTrack @ setDuration
                 else if playbackState = ''paused'' then
                   [SET_PLAYBACK_STATE False] @ setTrack @ setDuration
                 else if playbackState = ''stopped'' then
                   [SET_PLAYBACK_STATE False, SET_PROGRESS 0, SET_CURRENT_TRACK track]
                     @ setDuration
                 else []))))"

definition handleVolumeEvent :: "(string \<times> json) list \<Rightarrow> audio_state \<Rightarrow> audio_state" where
  "handleVolumeEvent payload state =
     dispatch state
       (case get_prop payload ''volume'' of
          None \<Rightarrow> []
        | Some JNull \<Rightarrow> []
        | Some v \<Rightarrow> [SET_VOLUME v])"

definition handleLibraryScanEvent ::
  "(json \<Rightarrow> string option) \<Rightarrow> (string \<times> json) list \<Rightarrow> audio_state \<Rightarrow> audio_state option" where
  "handleLibraryScanEvent toStr payload state =
     (case js_String toStr (js_or (get_prop payload ''status'') (Some (JStr []))) of
        None \<Rightarrow> None
      | Some str \<Rightarrow>
          let status = toLowerCase str
          in Some (dispatch state
               (if status = ''started'' then [SET_LOADING True]
                else if status = ''completed'' \<or> status = ''failed'' then [SET_LOADING False]
                else [])))"

text \<open>
  \<^verbatim>\<open>loadLibrary\<close>. What the fetch over the bridge and the artwork pass give is a parameter:
  no bridge, the list of tracks to store, or the message of the error thrown.
\<close>

datatype lib_fetch = LibNoApi | LibLoaded "track list" | LibFailed string

definition loadLibrary :: "bool \<Rightarrow> lib_fetch \<Rightarrow> audio_state \<Rightarrow> audio_state \<times> effect list" where
  "loadLibrary showSpinner f state =
     (let spinOn = (if showSpinner then [SET_LOADING True] else []);
          spinOff = (if showSpinner then [SET_LOADING False] else [])
      in case f of
           LibNoApi \<Rightarrow> (state, [])
         | LibLoaded enriched \<Rightarrow>
             (dispatch state (spinOn @ [SET_ERROR None, SET_LIBRARY enriched] @ spinOff),
              [GetLibraryCall])
         | LibFailed msg \<Rightarrow>
             (dispatch state
                (spinOn @ [SET_ERROR None, SET_ERROR (Some msg), SET_LIBRARY []] @ spinOff),
              [GetLibraryCall, NotifyError ''Unable to load library'' msg]))"

text \<open>
  \<^verbatim>\<open>const { type, ...payload } = parsed || {}\<close>. Only an object has a property
  \<^verbatim>\<open>type\<close>; for every other value \<^verbatim>\<open>type\<close> is \<^verbatim>\<open>undefined\<close> and the payload is never read.
\<close>

definition own_props :: "json \<Rightarrow> (string \<times> json) list" where
  "own_props parsed = (case parsed of JObj kvs \<Rightarrow> kvs | _ \<Rightarrow> [])"

definition event_type :: "json \<Rightarrow> json option" where
  "event_type parsed = get_prop (own_props parsed) ''type''"

definition event_payload :: "json \<Rightarrow> (string \<times> json) list" where
  "event_payload parsed = filter (\<lambda>(k, v). k \<noteq> ''type'') (own_props parsed)"

text \<open>
  \<^verbatim>\<open>handleEventMessage\<close>. \<^verbatim>\<open>JSON.parse\<close> is the parameter \<open>parse\<close>, \<open>None\<close> where it throws.
  The answer \<open>None\<close> is an exception that leaves the handler.
\<close>

definition handleEventMessage ::
  "(string \<Rightarrow> json option) \<Rightarrow> (json \<Rightarrow> string option) \<Rightarrow> lib_fetch \<Rightarrow> string \<Rightarrow> audio_state
     \<Rightarrow> (audio_state \<times> effect list) option" where
  "handleEventMessage parse toStr f rawMessage state =
     (case parse rawMessage of
        None \<Rightarrow> Some (state, [])
      | Some parsed \<Rightarrow>
          let type = event_type parsed;
              payload = event_payload parsed
          in if type = Some (JStr ''playback_state'') then
               map_option (\<lambda>s. (s, [])) (handlePlaybackEvent toStr payload state)
             else if type = Some (JStr ''volume_changed'') then
               Some (handleVolumeEvent payload state, [])
             else if type = Some (JStr ''library_scan'') then
               map_option (\<lambda>s. (s, [])) (handleLibraryScanEvent toStr payload state)
             else if type = Some (JStr ''library_updated'') then
               Some (loadLibrary False f state)
             else Some (state, []))"

section \<open>Runs and sample data\<close>

text \<open>Whether the awaited call rejected.\<close>

definition rejected :: "api \<Rightarrow> bool" where
  "rejected a = (case a of Rejected msg \<Rightarrow> True | _ \<Rightarrow> False)"

text \<open>
  \<^verbatim>\<open>nextTrack\<close> called once per element of the list, each call on the state the one before
  left, with that element as the outcome of its backend call. No draws are supplied: the
  run is \<open>None\<close> as soon as a call enters the shuffle loop.
\<close>

fun nextTrack_times ::
  "(rat \<Rightarrow> nat \<Rightarrow> rat) \<Rightarrow> api list \<Rightarrow> audio_state \<Rightarrow> audio_state option" where
  "nextTrack_times fmul [] state = Some state"
| "nextTrack_times fmul (a # as) state =
     (case nextTrack fmul [] a state of
        None \<Rightarrow> None
      | Some (state', effects) \<Rightarrow> nextTrack_times fmul as state')"

text \<open>
  The product for the concrete evaluations. Their draws are 0, 1/4 and 3/4 and their
  lengths 2 and 3; the products of these are doubles, so the host's product is the exact
  one there.
\<close>

definition exact_product :: "rat \<Rightarrow> nat \<Rightarrow> rat" where
  "exact_product r n = r * of_nat n"

text \<open>Three tracks and a state around a given queue, for the concrete evaluations.\<close>

definition trackA :: track where
  "trackA = \<lparr> t_id = ''a'', t_title = ''A'', t_path = ''/music/a.mp3'', t_duration = Some 180 \<rparr>"

definition trackB :: track where
  "trackB = \<lparr> t_id = ''b'', t_title = ''B'', t_path = ''/music/b.flac'', t_duration = None \<rparr>"

definition trackC :: track where
  "trackC = \<lparr> t_id = ''c'', t_title = ''C'', t_path = ''/music/c.ogg'', t_duration = Some 95 \<rparr>"

definition queued :: "track list \<Rightarrow> int \<Rightarrow> string \<Rightarrow> bool \<Rightarrow> audio_state" where
  "queued q i mode sh =
     initialState\<lparr> queue := q, currentQueueIndex := i, currentTrack := nth_js q i,
                   repeatMode := mode, shuffle := sh \<rparr>"

text \<open>
  What \<^verbatim>\<open>JSON.parse\<close> gives on the messages of the examples; a parser for them alone, which
  takes every other message as no JSON.
\<close>

definition sample_parse :: "string \<Rightarrow> json option" where
  \<open>sample_parse raw =
     (if raw = ''{"type":"ping"}'' then Some (JObj [(''type'', JStr ''ping'')])
      else if raw = ''{"type":7,"volume":1}'' then
        Some (JObj [(''type'', JNum 7), (''volume'', JNum 1)])
      else None)\<close>

section \<open>Frame of the add operation\<close>

text \<open>
  C8. \<^verbatim>\<open>ADD_TO_QUEUE\<close> of a track whose id some track of the queue already has returns the
  state as it was, in every field; so does \<^verbatim>\<open>addToQueue\<close>, which dispatches it.
\<close>

theorem add_present_noop:
  assumes "\<exists>q \<in> set (queue state). t_id q = t_id tr"
  shows "audioReducer state (ADD_TO_QUEUE tr) = state \<and> addToQueue (Some tr) state = state"
  using assms by (auto simp: addToQueue_def dispatch_def list_ex_iff)

theorem add_present_noop_witness:
  "(\<exists>q \<in> set (queue (queued [trackA, trackB] 0 ''none'' False)).
      t_id q = t_id (trackA\<lparr>t_title := ''A2''\<rparr>))
   \<and> audioReducer (queued [trackA, trackB] 0 ''none'' False)
         (ADD_TO_QUEUE (trackA\<lparr>t_title := ''A2''\<rparr>))
       = queued [trackA, trackB] 0 ''none'' False
   \<and> addToQueue (Some (trackA\<lparr>t_title := ''A2''\<rparr>)) (queued [trackA, trackB] 0 ''none'' False)
       = queued [trackA, trackB] 0 ''none'' False"
  using add_present_noop
    [of "queued [trackA, trackB] 0 ''none'' False" "trackA\<lparr>t_title := ''A2''\<rparr>"]
  by (simp add: queued_def trackA_def trackB_def)

section \<open>The end of the queue\<close>

text \<open>
  C5. Without shuffle and with repeat mode \<^verbatim>\<open>none\<close>, \<^verbatim>\<open>nextTrack\<close> at the last index of a
  non-empty queue returns at once: the state is the same in every field, whatever the
  backend would have answered, and nothing is asked of the backend.
\<close>

theorem next_at_end_none:
  assumes "\<not> shuffle state" and "repeatMode state = ''none''" and "queue state \<noteq> []"
    and "currentQueueIndex state = int (length (queue state)) - 1"
  shows "nextTrack fmul draws a state = Some (state, [])"
  using assms by (simp add: nextTrack_def)

theorem next_at_end_none_witness:
  "\<not> shuffle (queued [trackA, trackB, trackC] 2 ''none'' False)
   \<and> repeatMode (queued [trackA, trackB, trackC] 2 ''none'' False) = ''none''
   \<and> queue (queued [trackA, trackB, trackC] 2 ''none'' False) \<noteq> []
   \<and> currentQueueIndex (queued [trackA, trackB, trackC] 2 ''none'' False)
       = int (length (queue (queued [trackA, trackB, trackC] 2 ''none'' False))) - 1
   \<and> nextTrack exact_product [] Resolved (queued [trackA, trackB, trackC] 2 ''none'' False)
       = Some (queued [trackA, trackB, trackC] 2 ''none'' False, [])"
  using next_at_end_none
    [of "queued [trackA, trackB, trackC] 2 ''none'' False" exact_product "[]" Resolved]
  by (simp add: queued_def initialState_def)

section \<open>Pause and resume\<close>




text \<open>
  C9, as the claim states it, fails: \<^verbatim>\<open>pausePlayback\<close> has no test of the state, so a pause
  of a transport that is paused already goes to the backend again. On the paused state the
  first pause left, a second pause whose backend call resolves sends the pause command once
  more, and one whose backend call rejects stores the error message and raises the
  notification \<^verbatim>\<open>Pause failed\<close>.
\<close>

theorem pause_twice_counterexample:
  "fst (pausePlayback Resolved ((queued [trackA] 0 ''none'' False)\<lparr>isPlaying := True\<rparr>))
     = queued [trackA] 0 ''none'' False
   \<and> pausePlayback Resolved (queued [trackA] 0 ''none'' False)
       = (queued [trackA] 0 ''none'' False, [PausePlaybackCall])
   \<and> pausePlayback (Rejected ''busy'') (queued [trackA] 0 ''none'' False)
       = ((queued [trackA] 0 ''none'' False)\<lparr>error := Some ''busy''\<rparr>,
          [PausePlaybackCall, NotifyError ''Pause failed'' ''busy''])
   \<and> (queued [trackA] 0 ''none'' False)\<lparr>error := Some ''busy''\<rparr>
       \<noteq> queued [trackA] 0 ''none'' False"
  by (simp add: pausePlayback_def dispatch_def queued_def initialState_def)

text \<open>
  C9, amended. A pause whose backend call does not reject leaves a state that is not
  playing. On a state that is not playing, \<^verbatim>\<open>pausePlayback\<close> changes no field when
  there is no bridge and sends nothing; changes no field when the backend call resolves,
  and has sent the pause command again; and, when the backend call rejects, has sent the
  command, stores the error message, raises the notification \<^verbatim>\<open>Pause failed\<close> and changes
  no other field. So two pauses in a row leave the playing flag, the bound track, the
  progress, the duration, the queue and the cursor as one pause does.
\<close>

theorem pause_twice:
  "(\<not> rejected a1 \<longrightarrow> \<not> isPlaying (fst (pausePlayback a1 state)))
   \<and> (\<not> isPlaying state \<longrightarrow>
         pausePlayback NoApi state = (state, [])
         \<and> pausePlayback Resolved state = (state, [PausePlaybackCall])
         \<and> (\<forall>msg. pausePlayback (Rejected msg) state =
               (state\<lparr>error := Some msg\<rparr>, [PausePlaybackCall, NotifyError ''Pause failed'' msg])))
   \<and> (\<not> rejected a1 \<longrightarrow>
         pausePlayback NoApi (fst (pausePlayback a1 state)) = (fst (pausePlayback a1 state), [])
         \<and> pausePlayback Resolved (fst (pausePlayback a1 state))
             = (fst (pausePlayback a1 state), [PausePlaybackCall])
         \<and> (\<forall>msg. pausePlayback (Rejected msg) (fst (pausePlayback a1 state)) =
               ((fst (pausePlayback a1 state))\<lparr>error := Some msg\<rparr>,
                [PausePlaybackCall, NotifyError ''Pause failed'' msg])))"
proof (intro conjI impI allI)
  assume "\<not> rejected a1"
  then show "\<not> isPlaying (fst (pausePlayback a1 state))"
    by (cases a1) (simp_all add: pausePlayback_def dispatch_def rejected_def)
next
  assume "\<not> isPlaying state"
  then show "pausePlayback NoApi state = (state, [])"
    and "pausePlayback Resolved state = (state, [PausePlaybackCall])"
    by (simp_all add: pausePlayback_def dispatch_def)
next
  fix msg
  show "pausePlayback (Rejected msg) state =
      (state\<lparr>error := Some msg\<rparr>, [PausePlaybackCall, NotifyError ''Pause failed'' msg])"
    by (simp add: pausePlayback_def dispatch_def)
next
  assume "\<not> rejected a1"
  then show "pausePlayback NoApi (fst (pausePlayback a1 state))
      = (fst (pausePlayback a1 state), [])"
    and "pausePlayback Resolved (fst (pausePlayback a1 state))
      = (fst (pausePlayback a1 state), [PausePlaybackCall])"
    by (cases a1; simp add: pausePlayback_def dispatch_def rejected_def)+
next
  fix msg
  show "pausePlayback (Rejected msg) (fst (pausePlayback a1 state)) =
      ((fst (pausePlayback a1 state))\<lparr>error := Some msg\<rparr>,
       [PausePlaybackCall, NotifyError ''Pause failed'' msg])"
    by (simp add: pausePlayback_def dispatch_def)
qed

theorem pause_twice_witness:
  "\<not> rejected Resolved
   \<and> isPlaying ((queued [trackA] 0 ''none'' False)\<lparr>isPlaying := True\<rparr>)
   \<and> fst (pausePlayback Resolved ((queued [trackA] 0 ''none'' False)\<lparr>isPlaying := True\<rparr>))
       = queued [trackA] 0 ''none'' False
   \<and> \<not> isPlaying (queued [trackA] 0 ''none'' False)
   \<and> pausePlayback NoApi (queued [trackA] 0 ''none'' False)
       = (queued [trackA] 0 ''none'' False, [])
   \<and> pausePlayback Resolved (queued [trackA] 0 ''none'' False)
       = (queued [trackA] 0 ''none'' False, [PausePlaybackCall])
   \<and> pausePlayback (Rejected ''busy'') (queued [trackA] 0 ''none'' False)
       = ((queued [trackA] 0 ''none'' False)\<lparr>error := Some ''busy''\<rparr>,
          [PausePlaybackCall, NotifyError ''Pause failed'' ''busy''])"
proof -
  have r: "\<not> rejected Resolved"
    by (simp add: rejected_def)
  have p: "isPlaying ((queued [trackA] 0 ''none'' False)\<lparr>isPlaying := True\<rparr>)"
    by simp
  have f: "fst (pausePlayback Resolved ((queued [trackA] 0 ''none'' False)\<lparr>isPlaying := True\<rparr>))
       = queued [trackA] 0 ''none'' False"
    by (simp add: pausePlayback_def dispatch_def queued_def initialState_def)
  have n: "\<not> isPlaying (queued [trackA] 0 ''none'' False)"
    by (simp add: queued_def initialState_def)
  show ?thesis
    using pause_twice [of Resolved "queued [trackA] 0 ''none'' False"] r p f n
    by simp
qed

section \<open>The start of the queue\<close>

text \<open>
  C1, as the claim states it, fails: at index 0 with a repeat mode other than \<^verbatim>\<open>all\<close>,
  \<^verbatim>\<open>previousTrack\<close> keeps the index and goes on to play the track there. On the queue of
  A and B at A, not playing, the backend is asked to play A and the playing flag is set.
\<close>

theorem previous_at_start_counterexample:
  "queue (queued [trackA, trackB] 0 ''none'' False) \<noteq> []
   \<and> repeatMode (queued [trackA, trackB] 0 ''none'' False) \<noteq> ''all''
   \<and> currentQueueIndex (queued [trackA, trackB] 0 ''none'' False) = 0
   \<and> previousTrack Resolved (queued [trackA, trackB] 0 ''none'' False)
       = ((queued [trackA, trackB] 0 ''none'' False)\<lparr>isPlaying := True, duration := 180\<rparr>,
          [PlayTrackCall ''/music/a.mp3''])"
  by (simp add: previousTrack_def play_from_queue_def nth_js_def dispatch_def queued_def
      initialState_def trackA_def trackB_def)

text \<open>
  C1, amended. On a non-empty queue at index 0 with a repeat mode other than \<^verbatim>\<open>all\<close>,
  \<^verbatim>\<open>previousTrack\<close> leaves the cursor at 0 and starts the track at index 0 again: unless the
  backend call rejects, that track is the current one, the progress is 0, the duration is
  the track's and the playing flag is set; the backend, when there is one, is asked to play
  its path. When the call rejects, only the error message is stored.
\<close>

theorem previous_at_start_restarts:
  assumes "queue state \<noteq> []" and "repeatMode state \<noteq> ''all''"
    and "currentQueueIndex state = 0"
  shows "currentQueueIndex (fst (previousTrack a state)) = 0
    \<and> queue (fst (previousTrack a state)) = queue state
    \<and> (\<not> rejected a \<longrightarrow>
          fst (previousTrack a state) =
            state\<lparr>currentTrack := Some (hd (queue state)), progress := 0,
                  duration := (case t_duration (hd (queue state)) of Some d \<Rightarrow> d | None \<Rightarrow> 0),
                  isPlaying := True\<rparr>)
    \<and> (a = Resolved \<longrightarrow> snd (previousTrack a state) = [PlayTrackCall (t_path (hd (queue state)))])
    \<and> (a = NoApi \<longrightarrow> snd (previousTrack a state) = [])
    \<and> (\<forall>msg. a = Rejected msg \<longrightarrow>
          previousTrack a state =
            (state\<lparr>error := Some msg\<rparr>,
             [PlayTrackCall (t_path (hd (queue state))),
              NotifyError ''Previous track failed'' msg]))"
proof -
  obtain t ts where q: "queue state = t # ts"
    using assms(1) by (cases "queue state") auto
  have n: "nth_js (queue state) 0 = Some t"
    by (simp add: nth_js_def q)
  have h: "hd (queue state) = t"
    by (simp add: q)
  have p: "previousTrack a state = play_from_queue ''Previous track failed'' a state 0"
    using assms by (simp add: previousTrack_def)
  show ?thesis
    unfolding p h
    by (cases a) (simp_all add: play_from_queue_def n dispatch_def rejected_def assms(3))
qed

theorem previous_at_start_restarts_witness:
  "queue (queued [trackB, trackC] 0 ''one'' False) \<noteq> []
   \<and> repeatMode (queued [trackB, trackC] 0 ''one'' False) \<noteq> ''all''
   \<and> currentQueueIndex (queued [trackB, trackC] 0 ''one'' False) = 0
   \<and> \<not> rejected NoApi
   \<and> currentQueueIndex (fst (previousTrack NoApi (queued [trackB, trackC] 0 ''one'' False))) = 0
   \<and> fst (previousTrack NoApi (queued [trackB, trackC] 0 ''one'' False))
       = (queued [trackB, trackC] 0 ''one'' False)\<lparr>isPlaying := True\<rparr>
   \<and> snd (previousTrack NoApi (queued [trackB, trackC] 0 ''one'' False)) = []"
  using previous_at_start_restarts [of "queued [trackB, trackC] 0 ''one'' False" NoApi]
  by (simp add: queued_def initialState_def rejected_def nth_js_def trackB_def)

section \<open>Events\<close>

text \<open>
  C10. A message that is not JSON, or whose \<^verbatim>\<open>type\<close> is none of \<^verbatim>\<open>playback_state\<close>,
  \<^verbatim>\<open>volume_changed\<close>, \<^verbatim>\<open>library_scan\<close> and \<^verbatim>\<open>library_updated\<close> (also when it has no
  \<^verbatim>\<open>type\<close>, or is no object), leaves the state as it was in every field; the handler
  returns, raises no notification and throws nothing.
\<close>

theorem unknown_event_ignored:
  assumes "parse rawMessage = None
    \<or> (\<exists>parsed. parse rawMessage = Some parsed
          \<and> event_type parsed \<notin>
              {Some (JStr ''playback_state''), Some (JStr ''volume_changed''),
               Some (JStr ''library_scan''), Some (JStr ''library_updated'')})"
  shows "handleEventMessage parse toStr f rawMessage state = Some (state, [])"
  using assms by (auto simp: handleEventMessage_def Let_def)

theorem unknown_event_ignored_witness:
  \<open>sample_parse ''{oops'' = None
   \<and> handleEventMessage sample_parse (\<lambda>v. None) (LibLoaded []) ''{oops''
        (queued [trackA, trackB] 1 ''all'' True)
       = Some (queued [trackA, trackB] 1 ''all'' True, [])
   \<and> map_option event_type (sample_parse ''{"type":"ping"}'') = Some (Some (JStr ''ping''))
   \<and> handleEventMessage sample_parse (\<lambda>v. None) (LibLoaded []) ''{"type":"ping"}''
        (queued [trackA, trackB] 1 ''all'' True)
       = Some (queued [trackA, trackB] 1 ''all'' True, [])
   \<and> map_option event_type (sample_parse ''{"type":7,"volume":1}'') = Some (Some (JNum 7))
   \<and> handleEventMessage sample_parse (\<lambda>v. None) (LibLoaded []) ''{"type":7,"volume":1}''
        (queued [trackA, trackB] 1 ''all'' True)
       = Some (queued [trackA, trackB] 1 ''all'' True, [])\<close>
  using
    unknown_event_ignored [of sample_parse \<open>''{oops''\<close> "\<lambda>v. None" "LibLoaded []"
      "queued [trackA, trackB] 1 ''all'' True"]
    unknown_event_ignored [of sample_parse \<open>''{"type":"ping"}''\<close> "\<lambda>v. None" "LibLoaded []"
      "queued [trackA, trackB] 1 ''all'' True"]
    unknown_event_ignored [of sample_parse \<open>''{"type":7,"volume":1}''\<close> "\<lambda>v. None"
      "LibLoaded []" "queued [trackA, trackB] 1 ''all'' True"]
  by (simp add: sample_parse_def event_type_def own_props_def get_prop_def)

lemma lower_nonempty: "toLowerCase w = c # cs \<Longrightarrow> w \<noteq> []"
  by (auto simp: toLowerCase_def)

lemma lower_Stopped: "toLowerCase ''Stopped'' = ''stopped''"
  by code_simp

text \<open>What \<^verbatim>\<open>findTrack\<close> finds: a track with the id first, a track with the path next.\<close>

lemma find_is_Some:
  assumes "\<exists>t \<in> set xs. p t"
  shows "\<exists>t \<in> set xs. find p xs = Some t \<and> p t"
proof (cases "find p xs")
  case None
  then show ?thesis using assms by (auto simp: find_None_iff)
next
  case (Some t)
  then have "p t \<and> t \<in> set xs"
    by (auto simp: find_Some_iff)
  then show ?thesis using Some by auto
qed

lemma findTrack_by_id:
  assumes "\<exists>t \<in> set lib. t_id t \<noteq> [] \<and> trackId = Some (JStr (t_id t))"
  shows "\<exists>t \<in> set lib. findTrack lib trackId trackPath = Some t \<and> trackId = Some (JStr (t_id t))"
proof -
  from assms have tr: "truthy trackId" by auto
  from assms have "\<exists>t \<in> set lib. Some (JStr (t_id t)) = trackId" by auto
  from find_is_Some [OF this] obtain t where
    "t \<in> set lib" and "find (\<lambda>item. Some (JStr (t_id item)) = trackId) lib = Some t"
    and "Some (JStr (t_id t)) = trackId"
    by blast
  then show ?thesis using tr by (auto simp: findTrack_def)
qed

lemma findTrack_by_path:
  assumes "\<not> (\<exists>t \<in> set lib. t_id t \<noteq> [] \<and> trackId = Some (JStr (t_id t)))"
    and "\<exists>t \<in> set lib. t_path t \<noteq> [] \<and> trackPath = Some (JStr (t_path t))"
  shows "\<exists>t \<in> set lib. findTrack lib trackId trackPath = Some t
           \<and> trackPath = Some (JStr (t_path t))"
proof -
  have noid: "(if truthy trackId then find (\<lambda>item. Some (JStr (t_id item)) = trackId) lib
               else None) = None"
  proof (cases "truthy trackId")
    case False
    then show ?thesis by simp
  next
    case True
    have "\<not> (\<exists>t \<in> set lib. Some (JStr (t_id t)) = trackId)"
    proof
      assume "\<exists>t \<in> set lib. Some (JStr (t_id t)) = trackId"
      then obtain t where t: "t \<in> set lib" "Some (JStr (t_id t)) = trackId" by blast
      then have "t_id t \<noteq> []" using True by auto
      then show False using assms(1) t by auto
    qed
    then show ?thesis using True by (auto simp: find_None_iff)
  qed
  from assms(2) have tr: "truthy trackPath" by auto
  from assms(2) have "\<exists>t \<in> set lib. Some (JStr (t_path t)) = trackPath" by auto
  from find_is_Some [OF this] obtain t where
    "t \<in> set lib" and "find (\<lambda>item. Some (JStr (t_path item)) = trackPath) lib = Some t"
    and "Some (JStr (t_path t)) = trackPath"
    by blast
  then show ?thesis using tr noid by (auto simp: findTrack_def)
qed

lemma findTrack_none:
  assumes "\<not> (\<exists>t \<in> set lib. t_id t \<noteq> [] \<and> trackId = Some (JStr (t_id t)))"
    and "\<not> (\<exists>t \<in> set lib. t_path t \<noteq> [] \<and> trackPath = Some (JStr (t_path t)))"
  shows "findTrack lib trackId trackPath = None"
proof -
  have a: "truthy trackId \<Longrightarrow> find (\<lambda>item. Some (JStr (t_id item)) = trackId) lib = None"
    using assms(1) by (auto simp: find_None_iff)
  have b: "truthy trackPath \<Longrightarrow> find (\<lambda>item. Some (JStr (t_path item)) = trackPath) lib = None"
    using assms(2) by (auto simp: find_None_iff)
  show ?thesis
    using a b by (auto simp: findTrack_def)
qed


text \<open>
  C7, as the claim states it, fails: a \<^verbatim>\<open>stopped\<close> event that names a track of the library
  binds that track. From the initial state, with A in the library, the event with
  \<^verbatim>\<open>track_id\<close> of A leaves A as the current track.
\<close>

theorem stopped_event_counterexample:
  "map_option currentTrack
     (handlePlaybackEvent (\<lambda>v. None) [(''state'', JStr ''stopped''), (''track_id'', JStr ''a'')]
        (initialState\<lparr>library := [trackA, trackB]\<rparr>))
   = Some (Some trackA)"
  by (simp add: handlePlaybackEvent_def js_String_def js_or_def get_prop_def findTrack_def
      dispatch_def trackA_def trackB_def initialState_def toLowerCase_def lower_char_def)

text \<open>
  C7, amended. A \<^verbatim>\<open>playback_state\<close> event whose state is the word \<^verbatim>\<open>stopped\<close>, in any
  letter case, is handled without an exception; it clears the playing flag and sets the
  progress to 0, and the queue and its cursor stay. The event's track id is its
  \<^verbatim>\<open>track_id\<close> or else its \<^verbatim>\<open>trackId\<close>, its track path is its \<^verbatim>\<open>track_path\<close> or else its
  \<^verbatim>\<open>trackPath\<close>. When a track of the library has the event's id, a track of the library
  with that id becomes the current track. When none has, and a track of the library has the
  event's path, a track of the library with that path becomes the current track. When no
  track of the library has the event's id or its path, there is no current track after.
\<close>

theorem stopped_event:
  assumes "get_prop payload ''state'' = Some (JStr w)" and "toLowerCase w = ''stopped''"
    and "trackId =
      js_or (js_or (get_prop payload ''track_id'') (get_prop payload ''trackId'')) (Some JNull)"
    and "trackPath =
      js_or (js_or (get_prop payload ''track_path'') (get_prop payload ''trackPath'')) (Some JNull)"
  shows "\<exists>s'. handlePlaybackEvent toStr payload state = Some s'
      \<and> \<not> isPlaying s' \<and> progress s' = 0
      \<and> queue s' = queue state \<and> currentQueueIndex s' = currentQueueIndex state
      \<and> ((\<exists>t \<in> set (library state). t_id t \<noteq> [] \<and> trackId = Some (JStr (t_id t))) \<longrightarrow>
            (\<exists>t \<in> set (library state).
               currentTrack s' = Some t \<and> trackId = Some (JStr (t_id t))))
      \<and> (\<not> (\<exists>t \<in> set (library state). t_id t \<noteq> [] \<and> trackId = Some (JStr (t_id t)))
           \<and> (\<exists>t \<in> set (library state). t_path t \<noteq> [] \<and> trackPath = Some (JStr (t_path t)))
          \<longrightarrow> (\<exists>t \<in> set (library state).
                 currentTrack s' = Some t \<and> trackPath = Some (JStr (t_path t))))
      \<and> (\<not> (\<exists>t \<in> set (library state). t_id t \<noteq> [] \<and> trackId = Some (JStr (t_id t)))
           \<and> \<not> (\<exists>t \<in> set (library state).
                   t_path t \<noteq> [] \<and> trackPath = Some (JStr (t_path t)))
          \<longrightarrow> currentTrack s' = None)"
proof -
  have ne: "w \<noteq> []" using assms(2) by (rule lower_nonempty)
  have str: "js_String toStr (js_or (get_prop payload ''state'') (Some (JStr []))) = Some w"
    using assms(1) ne by (simp add: js_or_def js_String_def)
  have "\<exists>s'. handlePlaybackEvent toStr payload state = Some s'
      \<and> \<not> isPlaying s' \<and> progress s' = 0
      \<and> queue s' = queue state \<and> currentQueueIndex s' = currentQueueIndex state
      \<and> currentTrack s' = findTrack (library state) trackId trackPath"
    unfolding handlePlaybackEvent_def str assms(3,4)
    using assms(2)
    by (simp add: Let_def dispatch_def split: option.split json.split)
  then obtain s' where h: "handlePlaybackEvent toStr payload state = Some s'"
    and f: "\<not> isPlaying s'" "progress s' = 0" "queue s' = queue state"
      "currentQueueIndex s' = currentQueueIndex state"
    and c: "currentTrack s' = findTrack (library state) trackId trackPath"
    by blast
  have i: "(\<exists>t \<in> set (library state). t_id t \<noteq> [] \<and> trackId = Some (JStr (t_id t))) \<longrightarrow>
            (\<exists>t \<in> set (library state).
               currentTrack s' = Some t \<and> trackId = Some (JStr (t_id t)))"
    unfolding c using findTrack_by_id [of "library state" trackId trackPath] by blast
  have p: "\<not> (\<exists>t \<in> set (library state). t_id t \<noteq> [] \<and> trackId = Some (JStr (t_id t)))
           \<and> (\<exists>t \<in> set (library state). t_path t \<noteq> [] \<and> trackPath = Some (JStr (t_path t)))
          \<longrightarrow> (\<exists>t \<in> set (library state).
                 currentTrack s' = Some t \<and> trackPath = Some (JStr (t_path t)))"
    unfolding c using findTrack_by_path [of "library state" trackId trackPath] by blast
  have n: "\<not> (\<exists>t \<in> set (library state). t_id t \<noteq> [] \<and> trackId = Some (JStr (t_id t)))
           \<and> \<not> (\<exists>t \<in> set (library state).
                   t_path t \<noteq> [] \<and> trackPath = Some (JStr (t_path t)))
          \<longrightarrow> currentTrack s' = None"
    unfolding c using findTrack_none [of "library state" trackId trackPath] by blast
  show ?thesis
    using h f i p n by blast
qed

theorem stopped_event_witness:
  "get_prop [(''state'', JStr ''Stopped'')] ''state'' = Some (JStr ''Stopped'')
   \<and> get_prop [(''state'', JStr ''Stopped''), (''trackPath'', JStr ''/music/b.flac'')] ''state''
       = Some (JStr ''Stopped'')
   \<and> toLowerCase ''Stopped'' = ''stopped''
   \<and> handlePlaybackEvent (\<lambda>v. None) [(''state'', JStr ''Stopped'')]
        ((queued [trackA, trackB] 0 ''none'' False)
           \<lparr>isPlaying := True, progress := 42, library := [trackA, trackB]\<rparr>)
       = Some ((queued [trackA, trackB] 0 ''none'' False)
                 \<lparr>currentTrack := None, library := [trackA, trackB]\<rparr>)
   \<and> handlePlaybackEvent (\<lambda>v. None)
        [(''state'', JStr ''Stopped''), (''trackPath'', JStr ''/music/b.flac'')]
        ((queued [trackA, trackB] 0 ''none'' False)
           \<lparr>isPlaying := True, progress := 42, library := [trackA, trackB]\<rparr>)
       = Some ((queued [trackA, trackB] 0 ''none'' False)
                 \<lparr>currentTrack := Some trackB, library := [trackA, trackB]\<rparr>)"
proof -
  have g1: "get_prop [(''state'', JStr ''Stopped'')] ''state'' = Some (JStr ''Stopped'')"
    by (simp add: get_prop_def)
  have g2: "get_prop [(''state'', JStr ''Stopped''), (''trackPath'', JStr ''/music/b.flac'')]
      ''state'' = Some (JStr ''Stopped'')"
    by (simp add: get_prop_def)
  have v1: "handlePlaybackEvent (\<lambda>v. None) [(''state'', JStr ''Stopped'')]
        ((queued [trackA, trackB] 0 ''none'' False)
           \<lparr>isPlaying := True, progress := 42, library := [trackA, trackB]\<rparr>)
       = Some ((queued [trackA, trackB] 0 ''none'' False)
                 \<lparr>currentTrack := None, library := [trackA, trackB]\<rparr>)"
    by (simp add: handlePlaybackEvent_def js_String_def js_or_def get_prop_def findTrack_def
        dispatch_def trackA_def trackB_def queued_def initialState_def lower_Stopped)
  have v2: "handlePlaybackEvent (\<lambda>v. None)
        [(''state'', JStr ''Stopped''), (''trackPath'', JStr ''/music/b.flac'')]
        ((queued [trackA, trackB] 0 ''none'' False)
           \<lparr>isPlaying := True, progress := 42, library := [trackA, trackB]\<rparr>)
       = Some ((queued [trackA, trackB] 0 ''none'' False)
                 \<lparr>currentTrack := Some trackB, library := [trackA, trackB]\<rparr>)"
    by (simp add: handlePlaybackEvent_def js_String_def js_or_def get_prop_def findTrack_def
        dispatch_def trackA_def trackB_def queued_def initialState_def lower_Stopped)
  note t1 = stopped_event [OF g1 lower_Stopped refl refl, of "\<lambda>v. None"
      "(queued [trackA, trackB] 0 ''none'' False)
         \<lparr>isPlaying := True, progress := 42, library := [trackA, trackB]\<rparr>"]
  note t2 = stopped_event [OF g2 lower_Stopped refl refl, of "\<lambda>v. None"
      "(queued [trackA, trackB] 0 ''none'' False)
         \<lparr>isPlaying := True, progress := 42, library := [trackA, trackB]\<rparr>"]
  show ?thesis
    using t1 t2 g1 g2 v1 v2 lower_Stopped by simp
qed

section \<open>The cursor of the queue\<close>

lemma enumerate_filter_index:
  "map snd (filter (\<lambda>(k, x). int k \<noteq> i) (enumerate n xs)) =
     (if int n \<le> i \<and> i < int n + int (length xs)
      then take (nat i - n) xs @ drop (Suc (nat i - n)) xs else xs)"
proof (induction xs arbitrary: n)
  case Nil
  then show ?case by simp
next
  case (Cons x xs)
  show ?case
  proof (cases "int n = i")
    case True
    then show ?thesis using Cons [of "Suc n"] by auto
  next
    case False
    show ?thesis
    proof (cases "int n < i \<and> i < int n + int (length xs) + 1")
      case True
      then have "nat i - n = Suc (nat i - Suc n)" by linarith
      then show ?thesis using Cons [of "Suc n"] True False by auto
    next
      case False2: False
      then show ?thesis using Cons [of "Suc n"] False by auto
    qed
  qed
qed

lemma filter_index_eq:
  "filter_index xs i =
     (if 0 \<le> i \<and> i < int (length xs) then take (nat i) xs @ drop (Suc (nat i)) xs else xs)"
  using enumerate_filter_index [of i 0 xs] by (simp add: filter_index_def)

lemma filter_index_Nil: "filter_index [] i = []"
  by (simp add: filter_index_def)

text \<open>
  C3, as the claim states it, fails for the set operation: \<^verbatim>\<open>SET_QUEUE\<close> stores the start
  index it is given without a look at the queue. From the initial state, a queue of one
  track with start index 7 leaves the cursor at 7.
\<close>

theorem set_queue_counterexample:
  "cursor_ok initialState
   \<and> \<not> cursor_ok (audioReducer initialState (SET_QUEUE [trackA] (Some 7)))
   \<and> currentQueueIndex (audioReducer initialState (SET_QUEUE [trackA] (Some 7))) = 7
   \<and> length (queue (audioReducer initialState (SET_QUEUE [trackA] (Some 7)))) = 1"
  by (simp add: cursor_ok_def initialState_def)

lemma cursor_ok_remove_action:
  assumes "cursor_ok state"
  shows "cursor_ok (audioReducer state (REMOVE_FROM_QUEUE index))"
proof (cases "queue state = []")
  case True
  then show ?thesis by (simp add: cursor_ok_def filter_index_Nil Let_def)
next
  case False
  then have "0 \<le> currentQueueIndex state" using assms by (simp add: cursor_ok_def)
  then show ?thesis by (auto simp: cursor_ok_def Let_def)
qed

lemma removeFromQueue_fields:
  "queue (removeFromQueue index state) = filter_index (queue state) index"
  "currentQueueIndex (removeFromQueue index state) =
     (if filter_index (queue state) index = [] then - 1
      else min (currentQueueIndex state) (int (length (filter_index (queue state) index)) - 1))"
  "currentTrack (removeFromQueue index state) =
     nth_js (queue (removeFromQueue index state)) (currentQueueIndex (removeFromQueue index state))"
  by (auto simp: removeFromQueue_def dispatch_def Let_def nth_js_def)

lemma cursor_ok_removeFromQueue:
  assumes "cursor_ok state"
  shows "cursor_ok (removeFromQueue index state)"
proof (cases "queue state = []")
  case True
  then show ?thesis by (simp add: cursor_ok_def removeFromQueue_fields filter_index_Nil)
next
  case False
  then have "0 \<le> currentQueueIndex state" using assms by (simp add: cursor_ok_def)
  then show ?thesis by (auto simp: cursor_ok_def removeFromQueue_fields)
qed

lemma cursor_ok_add_action:
  assumes "cursor_ok state"
  shows "cursor_ok (audioReducer state (ADD_TO_QUEUE tr))"
  using assms by (auto simp: cursor_ok_def Let_def)

text \<open>\<^verbatim>\<open>playTrack\<close> hands \<^verbatim>\<open>SET_QUEUE\<close> and \<^verbatim>\<open>SET_QUEUE_INDEX\<close> an index of the queue.\<close>

lemma findIndex_range:
  "findIndex p xs = - 1 \<or> (0 \<le> findIndex p xs \<and> findIndex p xs < int (length xs))"
proof (cases "find (\<lambda>(k, x). p x) (enumerate 0 xs)")
  case None
  then show ?thesis by (simp add: findIndex_def)
next
  case (Some kx)
  obtain k x where kx: "kx = (k, x)" by (cases kx)
  from Some obtain i where "i < length (enumerate 0 xs)" and "enumerate 0 xs ! i = kx"
    by (auto simp: find_Some_iff)
  then have "k < length xs"
    using kx by (simp add: nth_enumerate_eq)
  then show ?thesis
    using Some kx by (simp add: findIndex_def)
qed

lemma cursor_ok_playTrack:
  assumes "cursor_ok state"
  shows "cursor_ok (fst (playTrack a t state))"
proof (cases t)
  case None
  then show ?thesis using assms by (simp add: playTrack_def)
next
  case (Some track)
  have r: "findIndex (\<lambda>queued. t_id queued = t_id track) (queue state) = - 1
      \<or> (0 \<le> findIndex (\<lambda>queued. t_id queued = t_id track) (queue state)
          \<and> findIndex (\<lambda>queued. t_id queued = t_id track) (queue state)
              < int (length (queue state)))"
    by (rule findIndex_range)
  show ?thesis
    using assms r Some
    by (cases a) (auto simp: playTrack_def Let_def dispatch_def cursor_ok_def)
qed

text \<open>
  C3, amended. From a state whose cursor is \<open>-1\<close> on an empty queue and an index of the queue
  otherwise, the same holds after: \<^verbatim>\<open>SET_QUEUE\<close> with no start index, or with a start
  index that is \<open>-1\<close> for an empty list and an index of the list otherwise (what
  \<^verbatim>\<open>playTrack\<close> and \<^verbatim>\<open>removeFromQueue\<close>, its callers, pass); \<^verbatim>\<open>ADD_TO_QUEUE\<close> and \<^verbatim>\<open>addToQueue\<close>; \<^verbatim>\<open>REMOVE_FROM_QUEUE\<close> and
  \<^verbatim>\<open>removeFromQueue\<close>; \<^verbatim>\<open>CLEAR_QUEUE\<close> and \<^verbatim>\<open>clearQueue\<close>. \<^verbatim>\<open>removeFromQueue\<close> leaves the
  queue without the element at the index; when that queue is empty the cursor is \<open>-1\<close> and
  there is no current track; otherwise the cursor is the smaller of the old cursor and the
  new last index, and the current track is the track there. Removing the current track
  when it is the last of the queue leaves the cursor on the new last index.
\<close>

theorem queue_ops_cursor:
  assumes "cursor_ok state"
  shows "((start = None \<or> start = Some (- 1) \<and> q = []
            \<or> (\<exists>i. start = Some i \<and> 0 \<le> i \<and> i < int (length q)))
          \<longrightarrow> cursor_ok (audioReducer state (SET_QUEUE q start)))
    \<and> cursor_ok (audioReducer state (ADD_TO_QUEUE tr))
    \<and> cursor_ok (addToQueue topt state)
    \<and> cursor_ok (audioReducer state (REMOVE_FROM_QUEUE index))
    \<and> cursor_ok (removeFromQueue index state)
    \<and> cursor_ok (audioReducer state CLEAR_QUEUE)
    \<and> cursor_ok (clearQueue state)
    \<and> queue (removeFromQueue index state) = filter_index (queue state) index
    \<and> currentQueueIndex (removeFromQueue index state) =
        (if queue (removeFromQueue index state) = [] then - 1
         else min (currentQueueIndex state) (int (length (queue (removeFromQueue index state))) - 1))
    \<and> currentTrack (removeFromQueue index state) =
        (if queue (removeFromQueue index state) = [] then None
         else Some (queue (removeFromQueue index state)
                      ! nat (currentQueueIndex (removeFromQueue index state))))
    \<and> (queue state \<noteq> [] \<and> index = currentQueueIndex state
          \<and> index = int (length (queue state)) - 1 \<longrightarrow>
          queue (removeFromQueue index state) = butlast (queue state)
          \<and> currentQueueIndex (removeFromQueue index state) = int (length (queue state)) - 2)"
proof -
  have s: "(start = None \<or> start = Some (- 1) \<and> q = []
            \<or> (\<exists>i. start = Some i \<and> 0 \<le> i \<and> i < int (length q)))
          \<longrightarrow> cursor_ok (audioReducer state (SET_QUEUE q start))"
    by (auto simp: cursor_ok_def)
  have a: "cursor_ok (addToQueue topt state)"
    using cursor_ok_add_action [OF assms] assms
    by (cases topt) (simp_all add: addToQueue_def dispatch_def)
  have c: "cursor_ok (audioReducer state CLEAR_QUEUE)" "cursor_ok (clearQueue state)"
    by (simp_all add: cursor_ok_def clearQueue_def dispatch_def)
  have ok: "cursor_ok (removeFromQueue index state)"
    using assms by (rule cursor_ok_removeFromQueue)
  have t: "currentTrack (removeFromQueue index state) =
        (if queue (removeFromQueue index state) = [] then None
         else Some (queue (removeFromQueue index state)
                      ! nat (currentQueueIndex (removeFromQueue index state))))"
    using ok unfolding removeFromQueue_fields(3) by (auto simp: cursor_ok_def nth_js_def)
  have l: "queue state \<noteq> [] \<and> index = currentQueueIndex state
          \<and> index = int (length (queue state)) - 1 \<longrightarrow>
          queue (removeFromQueue index state) = butlast (queue state)
          \<and> currentQueueIndex (removeFromQueue index state) = int (length (queue state)) - 2"
  proof
    assume h: "queue state \<noteq> [] \<and> index = currentQueueIndex state
          \<and> index = int (length (queue state)) - 1"
    then have ne: "queue state \<noteq> []"
      by simp
    then have i: "0 \<le> index \<and> index < int (length (queue state))" "nat index = length (queue state) - 1"
      using h by auto
    have f: "filter_index (queue state) index = butlast (queue state)"
      using i by (simp add: filter_index_eq butlast_conv_take)
    have q: "queue (removeFromQueue index state) = butlast (queue state)"
      by (simp only: removeFromQueue_fields(1) f)
    have len: "int (length (butlast (queue state))) = int (length (queue state)) - 1"
      using ne by (simp add: Suc_leI)
    have cur: "currentQueueIndex state = int (length (queue state)) - 1"
      using h by simp
    have "currentQueueIndex (removeFromQueue index state) =
        (if butlast (queue state) = [] then - 1
         else min (currentQueueIndex state) (int (length (butlast (queue state))) - 1))"
      by (simp only: removeFromQueue_fields(2) f)
    also have "\<dots> = int (length (queue state)) - 2"
    proof (cases "butlast (queue state) = []")
      case True
      then have "int (length (butlast (queue state))) = 0" by simp
      then show ?thesis using True len by simp
    next
      case False
      then show ?thesis using len cur by simp
    qed
    finally show "queue (removeFromQueue index state) = butlast (queue state)
          \<and> currentQueueIndex (removeFromQueue index state) = int (length (queue state)) - 2"
      using q by simp
  qed
  have ad: "cursor_ok (audioReducer state (ADD_TO_QUEUE tr))"
    using assms by (rule cursor_ok_add_action)
  have rm: "cursor_ok (audioReducer state (REMOVE_FROM_QUEUE index))"
    using assms by (rule cursor_ok_remove_action)
  have q: "queue (removeFromQueue index state) = filter_index (queue state) index"
    by (rule removeFromQueue_fields(1))
  have i: "currentQueueIndex (removeFromQueue index state) =
        (if queue (removeFromQueue index state) = [] then - 1
         else min (currentQueueIndex state) (int (length (queue (removeFromQueue index state))) - 1))"
    by (simp only: removeFromQueue_fields(1,2))
  show ?thesis
    by (intro conjI) (fact s ad a rm ok c q i t l)+
qed


theorem queue_ops_cursor_witness:
  "cursor_ok (queued [trackA, trackB, trackC] 2 ''none'' False)
   \<and> cursor_ok (audioReducer (queued [trackA, trackB, trackC] 2 ''none'' False)
         (SET_QUEUE [trackA] (Some 0)))
   \<and> cursor_ok (removeFromQueue 2 (queued [trackA, trackB, trackC] 2 ''none'' False))
   \<and> removeFromQueue 2 (queued [trackA, trackB, trackC] 2 ''none'' False)
       = queued [trackA, trackB] 1 ''none'' False
   \<and> removeFromQueue 0 (queued [trackA] 0 ''none'' False) = queued [] (- 1) ''none'' False"
  using queue_ops_cursor
    [where state = "queued [trackA, trackB, trackC] 2 ''none'' False" and start = "Some 0"
       and q = "[trackA]" and tr = trackC and topt = "Some trackB" and index = 2]
  by (simp add: cursor_ok_def queued_def initialState_def removeFromQueue_def dispatch_def
      filter_index_eq nth_js_def)

section \<open>Shuffle\<close>

lemma play_from_queue_at:
  assumes "0 \<le> i" and "i < int (length (queue state))"
  shows "(\<not> rejected a \<longrightarrow>
            fst (play_from_queue title a state i) =
              state\<lparr>currentQueueIndex := i, currentTrack := Some (queue state ! nat i),
                    progress := 0,
                    duration := (case t_duration (queue state ! nat i) of
                                   Some d \<Rightarrow> d | None \<Rightarrow> 0),
                    isPlaying := True\<rparr>)
    \<and> (a = NoApi \<longrightarrow> snd (play_from_queue title a state i) = [])
    \<and> (a = Resolved \<longrightarrow>
          snd (play_from_queue title a state i) = [PlayTrackCall (t_path (queue state ! nat i))])
    \<and> (\<forall>msg. a = Rejected msg \<longrightarrow>
          play_from_queue title a state i =
            (state\<lparr>error := Some msg\<rparr>,
             [PlayTrackCall (t_path (queue state ! nat i)), NotifyError title msg]))"
  using assms
  by (cases a) (simp_all add: play_from_queue_def nth_js_def dispatch_def rejected_def)

lemma shuffle_pick_Some:
  "shuffle_pick fmul draws n cur = Some i \<Longrightarrow>
     i \<noteq> cur \<and> (\<exists>r \<in> set draws. i = \<lfloor>fmul r n\<rfloor>)"
  by (induction draws) (auto simp: Let_def split: if_splits)

lemma shuffle_pick_ends:
  "\<exists>r \<in> set draws. \<lfloor>fmul r n\<rfloor> \<noteq> cur \<Longrightarrow> \<exists>i. shuffle_pick fmul draws n cur = Some i"
  by (induction draws) (auto simp: Let_def)

lemma shuffle_pick_stuck:
  "\<forall>r \<in> set draws. \<lfloor>fmul r n\<rfloor> = cur \<Longrightarrow> shuffle_pick fmul draws n cur = None"
  by (induction draws) (auto simp: Let_def)

text \<open>
  C6, as the claim states it, fails: repeat mode \<^verbatim>\<open>one\<close> is tested before shuffle. With
  shuffle on, two tracks in the queue and the cursor at 0, \<^verbatim>\<open>nextTrack\<close> in repeat mode
  \<^verbatim>\<open>one\<close> plays the track at the cursor again.
\<close>

theorem shuffle_repeat_one_counterexample:
  "shuffle (queued [trackA, trackB] 0 ''one'' True)
   \<and> length (queue (queued [trackA, trackB] 0 ''one'' True)) = 2
   \<and> currentQueueIndex (queued [trackA, trackB] 0 ''one'' True) = 0
   \<and> nextTrack exact_product [3 / 4] Resolved (queued [trackA, trackB] 0 ''one'' True)
       = Some ((queued [trackA, trackB] 0 ''one'' True)\<lparr>isPlaying := True, duration := 180\<rparr>,
               [PlayTrackCall ''/music/a.mp3''])"
  by (simp add: nextTrack_def play_from_queue_def nth_js_def dispatch_def queued_def
      initialState_def trackA_def trackB_def)

text \<open>
  C6, amended. With shuffle on, a repeat mode other than \<^verbatim>\<open>one\<close> and a queue of more than
  one track, when every draw gives an index of the queue: whenever \<^verbatim>\<open>nextTrack\<close> returns,
  it has picked an index of the queue other than the cursor, the index one of the draws
  gave; the track there is sent to the backend and, unless the backend call rejects, the
  cursor is on it and it is the current track, playing from progress 0; when the backend
  call rejects, the error message is stored and nothing else changes. \<^verbatim>\<open>nextTrack\<close> returns
  when one draw gives an index other than the cursor, and is still in its loop when every
  draw gives the cursor. With shuffle on, a repeat mode other than \<^verbatim>\<open>one\<close> and a queue of
  one track with the cursor on it, \<^verbatim>\<open>nextTrack\<close> plays that track again. In repeat mode
  \<^verbatim>\<open>one\<close>, with the cursor on an index of the queue, \<^verbatim>\<open>nextTrack\<close> plays the track at the
  cursor again, with shuffle on or off.
\<close>

theorem shuffle_next:
  "(shuffle state \<and> repeatMode state \<noteq> ''one'' \<and> 1 < length (queue state)
      \<and> (\<forall>r \<in> set draws. 0 \<le> \<lfloor>fmul r (length (queue state))\<rfloor>
                           \<and> \<lfloor>fmul r (length (queue state))\<rfloor> < int (length (queue state)))
     \<longrightarrow>
       (\<forall>res. nextTrack fmul draws a state = Some res \<longrightarrow>
          (\<exists>i. i \<noteq> currentQueueIndex state \<and> 0 \<le> i \<and> i < int (length (queue state))
             \<and> (\<exists>r \<in> set draws. i = \<lfloor>fmul r (length (queue state))\<rfloor>)
             \<and> (\<not> rejected a \<longrightarrow>
                   fst res =
                     state\<lparr>currentQueueIndex := i, currentTrack := Some (queue state ! nat i),
                           progress := 0,
                           duration := (case t_duration (queue state ! nat i) of
                                          Some d \<Rightarrow> d | None \<Rightarrow> 0),
                           isPlaying := True\<rparr>)
             \<and> (a = NoApi \<longrightarrow> snd res = [])
             \<and> (a = Resolved \<longrightarrow> snd res = [PlayTrackCall (t_path (queue state ! nat i))])
             \<and> (\<forall>msg. a = Rejected msg \<longrightarrow>
                   res = (state\<lparr>error := Some msg\<rparr>,
                          [PlayTrackCall (t_path (queue state ! nat i)),
                           NotifyError ''Next track failed'' msg]))))
       \<and> ((\<exists>r \<in> set draws. \<lfloor>fmul r (length (queue state))\<rfloor> \<noteq> currentQueueIndex state)
            \<longrightarrow> nextTrack fmul draws a state \<noteq> None)
       \<and> ((\<forall>r \<in> set draws. \<lfloor>fmul r (length (queue state))\<rfloor> = currentQueueIndex state)
            \<longrightarrow> nextTrack fmul draws a state = None))
   \<and> (shuffle state \<and> repeatMode state \<noteq> ''one'' \<and> length (queue state) = 1
        \<and> currentQueueIndex state = 0
       \<longrightarrow>
         (\<exists>res. nextTrack fmul draws a state = Some res
            \<and> (\<not> rejected a \<longrightarrow>
                  fst res =
                    state\<lparr>currentTrack := Some (hd (queue state)), progress := 0,
                          duration := (case t_duration (hd (queue state)) of
                                         Some d \<Rightarrow> d | None \<Rightarrow> 0),
                          isPlaying := True\<rparr>)
            \<and> (a = NoApi \<longrightarrow> snd res = [])
            \<and> (a = Resolved \<longrightarrow> snd res = [PlayTrackCall (t_path (hd (queue state)))])
            \<and> (\<forall>msg. a = Rejected msg \<longrightarrow>
                  res = (state\<lparr>error := Some msg\<rparr>,
                         [PlayTrackCall (t_path (hd (queue state))),
                          NotifyError ''Next track failed'' msg]))))
   \<and> (repeatMode state = ''one'' \<and> 0 \<le> currentQueueIndex state
        \<and> currentQueueIndex state < int (length (queue state))
       \<longrightarrow>
         (\<exists>res. nextTrack fmul draws a state = Some res
            \<and> (\<not> rejected a \<longrightarrow>
                  fst res =
                    state\<lparr>currentTrack := Some (queue state ! nat (currentQueueIndex state)),
                          progress := 0,
                          duration :=
                            (case t_duration (queue state ! nat (currentQueueIndex state)) of
                               Some d \<Rightarrow> d | None \<Rightarrow> 0),
                          isPlaying := True\<rparr>)
            \<and> (a = NoApi \<longrightarrow> snd res = [])
            \<and> (a = Resolved \<longrightarrow>
                  snd res = [PlayTrackCall (t_path (queue state ! nat (currentQueueIndex state)))])
            \<and> (\<forall>msg. a = Rejected msg \<longrightarrow>
                  res = (state\<lparr>error := Some msg\<rparr>,
                         [PlayTrackCall (t_path (queue state ! nat (currentQueueIndex state))),
                          NotifyError ''Next track failed'' msg]))))"
proof (intro conjI)
  show "shuffle state \<and> repeatMode state \<noteq> ''one'' \<and> 1 < length (queue state)
      \<and> (\<forall>r \<in> set draws. 0 \<le> \<lfloor>fmul r (length (queue state))\<rfloor>
                           \<and> \<lfloor>fmul r (length (queue state))\<rfloor> < int (length (queue state)))
     \<longrightarrow>
       (\<forall>res. nextTrack fmul draws a state = Some res \<longrightarrow>
          (\<exists>i. i \<noteq> currentQueueIndex state \<and> 0 \<le> i \<and> i < int (length (queue state))
             \<and> (\<exists>r \<in> set draws. i = \<lfloor>fmul r (length (queue state))\<rfloor>)
             \<and> (\<not> rejected a \<longrightarrow>
                   fst res =
                     state\<lparr>currentQueueIndex := i, currentTrack := Some (queue state ! nat i),
                           progress := 0,
                           duration := (case t_duration (queue state ! nat i) of
                                          Some d \<Rightarrow> d | None \<Rightarrow> 0),
                           isPlaying := True\<rparr>)
             \<and> (a = NoApi \<longrightarrow> snd res = [])
             \<and> (a = Resolved \<longrightarrow> snd res = [PlayTrackCall (t_path (queue state ! nat i))])
             \<and> (\<forall>msg. a = Rejected msg \<longrightarrow>
                   res = (state\<lparr>error := Some msg\<rparr>,
                          [PlayTrackCall (t_path (queue state ! nat i)),
                           NotifyError ''Next track failed'' msg]))))
       \<and> ((\<exists>r \<in> set draws. \<lfloor>fmul r (length (queue state))\<rfloor> \<noteq> currentQueueIndex state)
            \<longrightarrow> nextTrack fmul draws a state \<noteq> None)
       \<and> ((\<forall>r \<in> set draws. \<lfloor>fmul r (length (queue state))\<rfloor> = currentQueueIndex state)
            \<longrightarrow> nextTrack fmul draws a state = None)"
  proof (intro impI)
    assume h: "shuffle state \<and> repeatMode state \<noteq> ''one'' \<and> 1 < length (queue state)
      \<and> (\<forall>r \<in> set draws. 0 \<le> \<lfloor>fmul r (length (queue state))\<rfloor>
                           \<and> \<lfloor>fmul r (length (queue state))\<rfloor> < int (length (queue state)))"
    have nt: "nextTrack fmul draws a state =
        (case shuffle_pick fmul draws (length (queue state)) (currentQueueIndex state) of
           None \<Rightarrow> None
         | Some nextIndex \<Rightarrow> Some (play_from_queue ''Next track failed'' a state nextIndex))"
      using h by (cases "queue state") (simp_all add: nextTrack_def)
    have ret: "\<forall>res. nextTrack fmul draws a state = Some res \<longrightarrow>
          (\<exists>i. i \<noteq> currentQueueIndex state \<and> 0 \<le> i \<and> i < int (length (queue state))
             \<and> (\<exists>r \<in> set draws. i = \<lfloor>fmul r (length (queue state))\<rfloor>)
             \<and> (\<not> rejected a \<longrightarrow>
                   fst res =
                     state\<lparr>currentQueueIndex := i, currentTrack := Some (queue state ! nat i),
                           progress := 0,
                           duration := (case t_duration (queue state ! nat i) of
                                          Some d \<Rightarrow> d | None \<Rightarrow> 0),
                           isPlaying := True\<rparr>)
             \<and> (a = NoApi \<longrightarrow> snd res = [])
             \<and> (a = Resolved \<longrightarrow> snd res = [PlayTrackCall (t_path (queue state ! nat i))])
             \<and> (\<forall>msg. a = Rejected msg \<longrightarrow>
                   res = (state\<lparr>error := Some msg\<rparr>,
                          [PlayTrackCall (t_path (queue state ! nat i)),
                           NotifyError ''Next track failed'' msg])))"
    proof (intro allI impI)
      fix res
      assume r: "nextTrack fmul draws a state = Some res"
      then obtain i where
        p: "shuffle_pick fmul draws (length (queue state)) (currentQueueIndex state) = Some i"
        and res: "res = play_from_queue ''Next track failed'' a state i"
        unfolding nt by (auto split: option.splits)
      from shuffle_pick_Some [OF p] obtain d where
        i: "i \<noteq> currentQueueIndex state" and d: "d \<in> set draws"
        and id: "i = \<lfloor>fmul d (length (queue state))\<rfloor>"
        by blast
      have rng: "0 \<le> i" "i < int (length (queue state))"
        using h d id by auto
      have ex: "\<exists>r \<in> set draws. i = \<lfloor>fmul r (length (queue state))\<rfloor>"
        using d id by blast
      show "\<exists>i. i \<noteq> currentQueueIndex state \<and> 0 \<le> i \<and> i < int (length (queue state))
             \<and> (\<exists>r \<in> set draws. i = \<lfloor>fmul r (length (queue state))\<rfloor>)
             \<and> (\<not> rejected a \<longrightarrow>
                   fst res =
                     state\<lparr>currentQueueIndex := i, currentTrack := Some (queue state ! nat i),
                           progress := 0,
                           duration := (case t_duration (queue state ! nat i) of
                                          Some d \<Rightarrow> d | None \<Rightarrow> 0),
                           isPlaying := True\<rparr>)
             \<and> (a = NoApi \<longrightarrow> snd res = [])
             \<and> (a = Resolved \<longrightarrow> snd res = [PlayTrackCall (t_path (queue state ! nat i))])
             \<and> (\<forall>msg. a = Rejected msg \<longrightarrow>
                   res = (state\<lparr>error := Some msg\<rparr>,
                          [PlayTrackCall (t_path (queue state ! nat i)),
                           NotifyError ''Next track failed'' msg]))"
        unfolding res
        using i rng ex play_from_queue_at [OF rng, of a "''Next track failed''"]
        by (intro exI [of _ i]) blast
    qed
    have prog: "(\<exists>r \<in> set draws. \<lfloor>fmul r (length (queue state))\<rfloor> \<noteq> currentQueueIndex state)
            \<longrightarrow> nextTrack fmul draws a state \<noteq> None"
    proof
      assume "\<exists>r \<in> set draws. \<lfloor>fmul r (length (queue state))\<rfloor> \<noteq> currentQueueIndex state"
      from shuffle_pick_ends
        [where fmul = fmul and draws = draws and n = "length (queue state)"
           and cur = "currentQueueIndex state", OF this]
      obtain i where
        "shuffle_pick fmul draws (length (queue state)) (currentQueueIndex state) = Some i" ..
      then show "nextTrack fmul draws a state \<noteq> None"
        unfolding nt by simp
    qed
    have stuck: "(\<forall>r \<in> set draws. \<lfloor>fmul r (length (queue state))\<rfloor> = currentQueueIndex state)
            \<longrightarrow> nextTrack fmul draws a state = None"
    proof
      assume "\<forall>r \<in> set draws. \<lfloor>fmul r (length (queue state))\<rfloor> = currentQueueIndex state"
      from shuffle_pick_stuck
        [where fmul = fmul and draws = draws and n = "length (queue state)"
           and cur = "currentQueueIndex state", OF this]
      show "nextTrack fmul draws a state = None"
        unfolding nt by simp
    qed
    show "(\<forall>res. nextTrack fmul draws a state = Some res \<longrightarrow>
          (\<exists>i. i \<noteq> currentQueueIndex state \<and> 0 \<le> i \<and> i < int (length (queue state))
             \<and> (\<exists>r \<in> set draws. i = \<lfloor>fmul r (length (queue state))\<rfloor>)
             \<and> (\<not> rejected a \<longrightarrow>
                   fst res =
                     state\<lparr>currentQueueIndex := i, currentTrack := Some (queue state ! nat i),
                           progress := 0,
                           duration := (case t_duration (queue state ! nat i) of
                                          Some d \<Rightarrow> d | None \<Rightarrow> 0),
                           isPlaying := True\<rparr>)
             \<and> (a = NoApi \<longrightarrow> snd res = [])
             \<and> (a = Resolved \<longrightarrow> snd res = [PlayTrackCall (t_path (queue state ! nat i))])
             \<and> (\<forall>msg. a = Rejected msg \<longrightarrow>
                   res = (state\<lparr>error := Some msg\<rparr>,
                          [PlayTrackCall (t_path (queue state ! nat i)),
                           NotifyError ''Next track failed'' msg]))))
       \<and> ((\<exists>r \<in> set draws. \<lfloor>fmul r (length (queue state))\<rfloor> \<noteq> currentQueueIndex state)
            \<longrightarrow> nextTrack fmul draws a state \<noteq> None)
       \<and> ((\<forall>r \<in> set draws. \<lfloor>fmul r (length (queue state))\<rfloor> = currentQueueIndex state)
            \<longrightarrow> nextTrack fmul draws a state = None)"
      using ret prog stuck by (intro conjI)
  qed
next
  show "shuffle state \<and> repeatMode state \<noteq> ''one'' \<and> length (queue state) = 1
        \<and> currentQueueIndex state = 0
       \<longrightarrow>
         (\<exists>res. nextTrack fmul draws a state = Some res
            \<and> (\<not> rejected a \<longrightarrow>
                  fst res =
                    state\<lparr>currentTrack := Some (hd (queue state)), progress := 0,
                          duration := (case t_duration (hd (queue state)) of
                                         Some d \<Rightarrow> d | None \<Rightarrow> 0),
                          isPlaying := True\<rparr>)
            \<and> (a = NoApi \<longrightarrow> snd res = [])
            \<and> (a = Resolved \<longrightarrow> snd res = [PlayTrackCall (t_path (hd (queue state)))])
            \<and> (\<forall>msg. a = Rejected msg \<longrightarrow>
                  res = (state\<lparr>error := Some msg\<rparr>,
                         [PlayTrackCall (t_path (hd (queue state))),
                          NotifyError ''Next track failed'' msg])))"
  proof
    assume h: "shuffle state \<and> repeatMode state \<noteq> ''one'' \<and> length (queue state) = 1
        \<and> currentQueueIndex state = 0"
    then have hd: "queue state ! 0 = hd (queue state)"
      by (cases "queue state") auto
    have c: "state\<lparr>currentQueueIndex := 0\<rparr> = state"
      using h by simp
    have nt: "nextTrack fmul draws a state =
        Some (play_from_queue ''Next track failed'' a state 0)"
      using h by (cases "queue state") (simp_all add: nextTrack_def)
    have rng: "(0::int) \<le> 0" "0 < int (length (queue state))"
      using h by simp_all
    show "\<exists>res. nextTrack fmul draws a state = Some res
            \<and> (\<not> rejected a \<longrightarrow>
                  fst res =
                    state\<lparr>currentTrack := Some (hd (queue state)), progress := 0,
                          duration := (case t_duration (hd (queue state)) of
                                         Some d \<Rightarrow> d | None \<Rightarrow> 0),
                          isPlaying := True\<rparr>)
            \<and> (a = NoApi \<longrightarrow> snd res = [])
            \<and> (a = Resolved \<longrightarrow> snd res = [PlayTrackCall (t_path (hd (queue state)))])
            \<and> (\<forall>msg. a = Rejected msg \<longrightarrow>
                  res = (state\<lparr>error := Some msg\<rparr>,
                         [PlayTrackCall (t_path (hd (queue state))),
                          NotifyError ''Next track failed'' msg]))"
      unfolding nt
      using play_from_queue_at [OF rng, of a "''Next track failed''"]
      by (simp add: hd c)
  qed
next
  show "repeatMode state = ''one'' \<and> 0 \<le> currentQueueIndex state
        \<and> currentQueueIndex state < int (length (queue state))
       \<longrightarrow>
         (\<exists>res. nextTrack fmul draws a state = Some res
            \<and> (\<not> rejected a \<longrightarrow>
                  fst res =
                    state\<lparr>currentTrack := Some (queue state ! nat (currentQueueIndex state)),
                          progress := 0,
                          duration :=
                            (case t_duration (queue state ! nat (currentQueueIndex state)) of
                               Some d \<Rightarrow> d | None \<Rightarrow> 0),
                          isPlaying := True\<rparr>)
            \<and> (a = NoApi \<longrightarrow> snd res = [])
            \<and> (a = Resolved \<longrightarrow>
                  snd res = [PlayTrackCall (t_path (queue state ! nat (currentQueueIndex state)))])
            \<and> (\<forall>msg. a = Rejected msg \<longrightarrow>
                  res = (state\<lparr>error := Some msg\<rparr>,
                         [PlayTrackCall (t_path (queue state ! nat (currentQueueIndex state))),
                          NotifyError ''Next track failed'' msg])))"
  proof
    assume h: "repeatMode state = ''one'' \<and> 0 \<le> currentQueueIndex state
        \<and> currentQueueIndex state < int (length (queue state))"
    have c: "state\<lparr>currentQueueIndex := currentQueueIndex state\<rparr> = state"
      by simp
    have ne: "queue state \<noteq> []"
      using h by auto
    have nt: "nextTrack fmul draws a state =
        Some (play_from_queue ''Next track failed'' a state (currentQueueIndex state))"
      using h ne by (simp add: nextTrack_def)
    have rng: "0 \<le> currentQueueIndex state" "currentQueueIndex state < int (length (queue state))"
      using h by simp_all
    show "\<exists>res. nextTrack fmul draws a state = Some res
            \<and> (\<not> rejected a \<longrightarrow>
                  fst res =
                    state\<lparr>currentTrack := Some (queue state ! nat (currentQueueIndex state)),
                          progress := 0,
                          duration :=
                            (case t_duration (queue state ! nat (currentQueueIndex state)) of
                               Some d \<Rightarrow> d | None \<Rightarrow> 0),
                          isPlaying := True\<rparr>)
            \<and> (a = NoApi \<longrightarrow> snd res = [])
            \<and> (a = Resolved \<longrightarrow>
                  snd res = [PlayTrackCall (t_path (queue state ! nat (currentQueueIndex state)))])
            \<and> (\<forall>msg. a = Rejected msg \<longrightarrow>
                  res = (state\<lparr>error := Some msg\<rparr>,
                         [PlayTrackCall (t_path (queue state ! nat (currentQueueIndex state))),
                          NotifyError ''Next track failed'' msg]))"
      unfolding nt
      using play_from_queue_at [OF rng, of a "''Next track failed''"]
      by (simp add: c)
  qed
qed

theorem shuffle_next_witness:
  "shuffle (queued [trackA, trackB, trackC] 0 ''none'' True)
   \<and> repeatMode (queued [trackA, trackB, trackC] 0 ''none'' True) \<noteq> ''one''
   \<and> 1 < length (queue (queued [trackA, trackB, trackC] 0 ''none'' True))
   \<and> \<lfloor>exact_product 0 3\<rfloor> = 0 \<and> \<lfloor>exact_product (1 / 4) 3\<rfloor> = 0
   \<and> \<lfloor>exact_product (3 / 4) 3\<rfloor> = 2
   \<and> nextTrack exact_product [0, 1 / 4, 3 / 4] Resolved
        (queued [trackA, trackB, trackC] 0 ''none'' True)
       = Some ((queued [trackA, trackB, trackC] 0 ''none'' True)
                 \<lparr>currentQueueIndex := 2, currentTrack := Some trackC, duration := 95,
                  isPlaying := True\<rparr>,
               [PlayTrackCall ''/music/c.ogg''])
   \<and> nextTrack exact_product [0, 1 / 4] Resolved
        (queued [trackA, trackB, trackC] 0 ''none'' True) = None
   \<and> repeatMode (queued [trackA, trackB] 1 ''one'' False) = ''one''
   \<and> nextTrack exact_product [] (Rejected ''busy'') (queued [trackA, trackB] 1 ''one'' False)
       = Some ((queued [trackA, trackB] 1 ''one'' False)\<lparr>error := Some ''busy''\<rparr>,
               [PlayTrackCall ''/music/b.flac'', NotifyError ''Next track failed'' ''busy''])"
proof -
  have f: "\<lfloor>exact_product 0 3\<rfloor> = 0" "\<lfloor>exact_product (1 / 4) 3\<rfloor> = 0"
    "\<lfloor>exact_product (3 / 4) 3\<rfloor> = 2"
    by (simp_all add: exact_product_def) (rule floor_unique; simp)+
  have h: "shuffle (queued [trackA, trackB, trackC] 0 ''none'' True)"
    "repeatMode (queued [trackA, trackB, trackC] 0 ''none'' True) \<noteq> ''one''"
    "1 < length (queue (queued [trackA, trackB, trackC] 0 ''none'' True))"
    "repeatMode (queued [trackA, trackB] 1 ''one'' False) = ''one''"
    by (simp_all add: queued_def initialState_def)
  have f1: "\<lfloor>3 / 4 :: rat\<rfloor> = 0"
    by (rule floor_unique; simp)
  have f2: "\<lfloor>9 / 4 :: rat\<rfloor> = 2"
    by (rule floor_unique; simp)
  have v: "nextTrack exact_product [0, 1 / 4, 3 / 4] Resolved
        (queued [trackA, trackB, trackC] 0 ''none'' True)
       = Some ((queued [trackA, trackB, trackC] 0 ''none'' True)
                 \<lparr>currentQueueIndex := 2, currentTrack := Some trackC, duration := 95,
                  isPlaying := True\<rparr>,
               [PlayTrackCall ''/music/c.ogg''])"
    by (simp add: queued_def initialState_def nextTrack_def play_from_queue_def Let_def
        nth_js_def dispatch_def trackA_def trackB_def trackC_def exact_product_def f1 f2)
  have u: "nextTrack exact_product [0, 1 / 4] Resolved
        (queued [trackA, trackB, trackC] 0 ''none'' True) = None"
    by (simp add: queued_def initialState_def nextTrack_def Let_def exact_product_def f1)
  have w: "nextTrack exact_product [] (Rejected ''busy'') (queued [trackA, trackB] 1 ''one'' False)
       = Some ((queued [trackA, trackB] 1 ''one'' False)\<lparr>error := Some ''busy''\<rparr>,
               [PlayTrackCall ''/music/b.flac'', NotifyError ''Next track failed'' ''busy''])"
    by (simp add: queued_def initialState_def nextTrack_def play_from_queue_def
        nth_js_def dispatch_def trackA_def trackB_def)
  note t1 = shuffle_next
    [where state = "queued [trackA, trackB, trackC] 0 ''none'' True"
       and draws = "[0, 1 / 4, 3 / 4]" and fmul = exact_product and a = Resolved]
  note t2 = shuffle_next
    [where state = "queued [trackA, trackB] 1 ''one'' False"
       and draws = "[]" and fmul = exact_product and a = "Rejected ''busy''"]
  show ?thesis
    using t1 t2 f h v u w by simp
qed

section \<open>Repeat all\<close>

lemma next_sequential_all:
  assumes "\<not> shuffle state" and "repeatMode state = ''all''" and "queue state \<noteq> []"
    and "0 \<le> currentQueueIndex state" and "currentQueueIndex state < int (length (queue state))"
  shows "nextTrack fmul draws a state =
     Some (play_from_queue ''Next track failed'' a state
             (if currentQueueIndex state = int (length (queue state)) - 1 then 0
              else currentQueueIndex state + 1))"
  using assms by (auto simp: nextTrack_def Let_def)

lemma next_index_mod:
  assumes "0 \<le> c" and "c < n"
  shows "(if c = n - 1 then 0 else c + 1) = (c + 1) mod (n :: int)"
  using assms by auto

lemma nextTrack_times_all:
  assumes "\<not> shuffle state" and "repeatMode state = ''all''" and "queue state \<noteq> []"
    and "0 \<le> currentQueueIndex state" and "currentQueueIndex state < int (length (queue state))"
  shows "\<exists>s'. nextTrack_times fmul as state = Some s'
     \<and> queue s' = queue state
     \<and> currentQueueIndex s' =
         (currentQueueIndex state + int (length (filter (\<lambda>a. \<not> rejected a) as)))
           mod int (length (queue state))
     \<and> ((\<exists>a \<in> set as. \<not> rejected a) \<longrightarrow>
           currentTrack s' = Some (queue state ! nat (currentQueueIndex s')))
     \<and> ((\<forall>a \<in> set as. rejected a) \<longrightarrow> currentTrack s' = currentTrack state)"
  using assms
proof (induction as arbitrary: state)
  case Nil
  then show ?case by simp
next
  case (Cons a as)
  let ?i = "if currentQueueIndex state = int (length (queue state)) - 1 then 0
            else currentQueueIndex state + 1"
  have i: "?i = (currentQueueIndex state + 1) mod int (length (queue state))"
    using Cons.prems(4,5) by (rule next_index_mod)
  have len: "0 < int (length (queue state))" using Cons.prems(3) by simp
  have rng: "0 \<le> ?i" "?i < int (length (queue state))"
    using Cons.prems(4,5) by auto
  have n: "nextTrack fmul [] a state = Some (play_from_queue ''Next track failed'' a state ?i)"
    using Cons.prems by (rule next_sequential_all)
  note at = play_from_queue_at [OF rng, of a "''Next track failed''"]
  obtain s1 e1 where s1: "play_from_queue ''Next track failed'' a state ?i = (s1, e1)"
    by (cases "play_from_queue ''Next track failed'' a state ?i")
  show ?case
  proof (cases "rejected a")
    case True
    then obtain msg where a: "a = Rejected msg"
      by (cases a) (simp_all add: rejected_def)
    have e: "s1 = state\<lparr>error := Some msg\<rparr>"
      using at s1 a by simp
    have p: "\<not> shuffle s1" "repeatMode s1 = ''all''" "queue s1 \<noteq> []"
      "0 \<le> currentQueueIndex s1" "currentQueueIndex s1 < int (length (queue s1))"
      using Cons.prems by (simp_all add: e)
    from Cons.IH [OF p] obtain s' where
      k: "nextTrack_times fmul as s1 = Some s'" and q': "queue s' = queue s1"
      and c': "currentQueueIndex s' =
         (currentQueueIndex s1 + int (length (filter (\<lambda>a. \<not> rejected a) as)))
           mod int (length (queue s1))"
      and t': "(\<exists>a \<in> set as. \<not> rejected a) \<longrightarrow>
           currentTrack s' = Some (queue s1 ! nat (currentQueueIndex s'))"
      and u': "(\<forall>a \<in> set as. rejected a) \<longrightarrow> currentTrack s' = currentTrack s1"
      by blast
    show ?thesis
      using n s1 k q' c' t' u' True by (simp add: e)
  next
    case False
    have e: "s1 =
        state\<lparr>currentQueueIndex := ?i, currentTrack := Some (queue state ! nat ?i),
              progress := 0,
              duration := (case t_duration (queue state ! nat ?i) of Some d \<Rightarrow> d | None \<Rightarrow> 0),
              isPlaying := True\<rparr>"
      using at s1 False by simp
    have q1: "queue s1 = queue state" and c1: "currentQueueIndex s1 = ?i"
      and t1: "currentTrack s1 = Some (queue state ! nat ?i)"
      by (simp_all add: e)
    have p: "\<not> shuffle s1" "repeatMode s1 = ''all''" "queue s1 \<noteq> []"
      "0 \<le> currentQueueIndex s1" "currentQueueIndex s1 < int (length (queue s1))"
      using Cons.prems rng by (simp_all add: e)
    from Cons.IH [OF p] obtain s' where
      k: "nextTrack_times fmul as s1 = Some s'" and q': "queue s' = queue s1"
      and c': "currentQueueIndex s' =
         (currentQueueIndex s1 + int (length (filter (\<lambda>a. \<not> rejected a) as)))
           mod int (length (queue s1))"
      and t': "(\<exists>a \<in> set as. \<not> rejected a) \<longrightarrow>
           currentTrack s' = Some (queue s1 ! nat (currentQueueIndex s'))"
      and u': "(\<forall>a \<in> set as. rejected a) \<longrightarrow> currentTrack s' = currentTrack s1"
      by blast
    have c2: "currentQueueIndex s' =
        (currentQueueIndex state + int (length (filter (\<lambda>a. \<not> rejected a) (a # as))))
          mod int (length (queue state))"
      unfolding c' c1 q1 i using False by (simp add: mod_simps algebra_simps)
    have t2: "currentTrack s' = Some (queue state ! nat (currentQueueIndex s'))"
    proof (cases "\<forall>a \<in> set as. rejected a")
      case True
      then have "filter (\<lambda>a. \<not> rejected a) as = []"
        by (simp add: filter_empty_conv)
      then have "currentQueueIndex s' = ?i"
        unfolding c' c1 q1 using rng by simp
      then show ?thesis using u' True t1 by simp
    next
      case False
      then show ?thesis using t' q1 by auto
    qed
    show ?thesis
      using n s1 k q' q1 c2 t2 False by auto
  qed
qed


text \<open>
  C4, as the claim states it, fails twice. A call of \<^verbatim>\<open>nextTrack\<close> whose backend call
  rejects leaves the cursor: on the queue of A, B and C at B, three calls of which the second
  is rejected end at A. And the current track need not be the track at the cursor: a
  \<^verbatim>\<open>playing\<close> event that names C binds C and leaves the cursor at B, and three calls from
  there, all resolved, come back to the cursor of B with B, not C, as the current track.
\<close>

theorem next_cycle_counterexample:
  "currentQueueIndex (queued [trackA, trackB, trackC] 1 ''all'' False) = 1
   \<and> map_option currentQueueIndex
        (nextTrack_times exact_product [Resolved, Rejected ''busy'', Resolved]
           (queued [trackA, trackB, trackC] 1 ''all'' False))
       = Some 0
   \<and> handlePlaybackEvent (\<lambda>v. None) [(''state'', JStr ''playing''), (''track_id'', JStr ''c'')]
        ((queued [trackA, trackB, trackC] 1 ''all'' False)\<lparr>library := [trackA, trackB, trackC]\<rparr>)
       = Some ((queued [trackA, trackB, trackC] 1 ''all'' False)
                 \<lparr>library := [trackA, trackB, trackC], isPlaying := True,
                  currentTrack := Some trackC, duration := 95\<rparr>)
   \<and> map_option currentTrack
        (nextTrack_times exact_product [Resolved, Resolved, Resolved]
           ((queued [trackA, trackB, trackC] 1 ''all'' False)
              \<lparr>library := [trackA, trackB, trackC], isPlaying := True,
               currentTrack := Some trackC, duration := 95\<rparr>))
       = Some (Some trackB)
   \<and> trackB \<noteq> trackC"
  by (simp add: queued_def initialState_def nextTrack_def play_from_queue_def Let_def
      nth_js_def dispatch_def trackA_def trackB_def trackC_def handlePlaybackEvent_def
      js_String_def js_or_def get_prop_def findTrack_def toLowerCase_def lower_char_def)

text \<open>
  C4, amended. Without shuffle and in repeat mode \<^verbatim>\<open>all\<close>, on a queue of \<open>N \<ge> 1\<close> tracks with
  the cursor on an index of the queue: every call of \<^verbatim>\<open>nextTrack\<close> returns; one call picks
  the next index, which is 0 at the last index, sends the track there to the backend and,
  unless the backend call rejects, moves the cursor to it and makes that track the current
  one, playing from progress 0; a call whose backend call rejects stores the error message
  and changes nothing else. After any run of calls the cursor has moved on, modulo \<open>N\<close>, by
  the number of calls whose backend call did not reject. So a run in which exactly \<open>N\<close>
  backend calls did not reject leaves the cursor where it was, with the track at the cursor
  as the current track; that is the current track of the start when the current track of
  the start was the track at the cursor.
\<close>

theorem next_cycle:
  assumes "\<not> shuffle state" and "repeatMode state = ''all''" and "queue state \<noteq> []"
    and "0 \<le> currentQueueIndex state" and "currentQueueIndex state < int (length (queue state))"
  shows "(\<exists>s'. nextTrack_times fmul as state = Some s'
            \<and> queue s' = queue state
            \<and> currentQueueIndex s' =
                (currentQueueIndex state + int (length (filter (\<lambda>a. \<not> rejected a) as)))
                  mod int (length (queue state))
            \<and> (length (filter (\<lambda>a. \<not> rejected a) as) = length (queue state) \<longrightarrow>
                  currentQueueIndex s' = currentQueueIndex state
                  \<and> currentTrack s' = Some (queue state ! nat (currentQueueIndex state))
                  \<and> (currentTrack state = nth_js (queue state) (currentQueueIndex state)
                       \<longrightarrow> currentTrack s' = currentTrack state)))
    \<and> (\<exists>res i. nextTrack fmul draws a state = Some res
          \<and> i = (if currentQueueIndex state = int (length (queue state)) - 1 then 0
                  else currentQueueIndex state + 1)
          \<and> (\<not> rejected a \<longrightarrow>
                fst res =
                  state\<lparr>currentQueueIndex := i, currentTrack := Some (queue state ! nat i),
                        progress := 0,
                        duration := (case t_duration (queue state ! nat i) of
                                       Some d \<Rightarrow> d | None \<Rightarrow> 0),
                        isPlaying := True\<rparr>)
          \<and> (a = NoApi \<longrightarrow> snd res = [])
          \<and> (a = Resolved \<longrightarrow> snd res = [PlayTrackCall (t_path (queue state ! nat i))])
          \<and> (\<forall>msg. a = Rejected msg \<longrightarrow>
                res = (state\<lparr>error := Some msg\<rparr>,
                       [PlayTrackCall (t_path (queue state ! nat i)),
                        NotifyError ''Next track failed'' msg])))"
proof
  from nextTrack_times_all [OF assms, of fmul as] obtain s' where
    k: "nextTrack_times fmul as state = Some s'" and q: "queue s' = queue state"
    and c: "currentQueueIndex s' =
         (currentQueueIndex state + int (length (filter (\<lambda>a. \<not> rejected a) as)))
           mod int (length (queue state))"
    and t: "(\<exists>a \<in> set as. \<not> rejected a) \<longrightarrow>
           currentTrack s' = Some (queue state ! nat (currentQueueIndex s'))"
    by blast
  have cyc: "length (filter (\<lambda>a. \<not> rejected a) as) = length (queue state) \<longrightarrow>
                  currentQueueIndex s' = currentQueueIndex state
                  \<and> currentTrack s' = Some (queue state ! nat (currentQueueIndex state))
                  \<and> (currentTrack state = nth_js (queue state) (currentQueueIndex state)
                       \<longrightarrow> currentTrack s' = currentTrack state)"
  proof
    assume l: "length (filter (\<lambda>a. \<not> rejected a) as) = length (queue state)"
    have c0: "currentQueueIndex s' = currentQueueIndex state"
      unfolding c l using assms(4,5) by simp
    have "filter (\<lambda>a. \<not> rejected a) as \<noteq> []"
      using l assms(3) by auto
    then have "\<exists>a \<in> set as. \<not> rejected a"
      by (simp add: filter_empty_conv)
    then have "currentTrack s' = Some (queue state ! nat (currentQueueIndex state))"
      using t c0 by simp
    then show "currentQueueIndex s' = currentQueueIndex state
        \<and> currentTrack s' = Some (queue state ! nat (currentQueueIndex state))
        \<and> (currentTrack state = nth_js (queue state) (currentQueueIndex state)
             \<longrightarrow> currentTrack s' = currentTrack state)"
      using c0 assms(4,5) by (simp add: nth_js_def)
  qed
  show "\<exists>s'. nextTrack_times fmul as state = Some s'
            \<and> queue s' = queue state
            \<and> currentQueueIndex s' =
                (currentQueueIndex state + int (length (filter (\<lambda>a. \<not> rejected a) as)))
                  mod int (length (queue state))
            \<and> (length (filter (\<lambda>a. \<not> rejected a) as) = length (queue state) \<longrightarrow>
                  currentQueueIndex s' = currentQueueIndex state
                  \<and> currentTrack s' = Some (queue state ! nat (currentQueueIndex state))
                  \<and> (currentTrack state = nth_js (queue state) (currentQueueIndex state)
                       \<longrightarrow> currentTrack s' = currentTrack state))"
    using k q c cyc by blast
next
  let ?i = "if currentQueueIndex state = int (length (queue state)) - 1 then 0
            else currentQueueIndex state + 1"
  have rng: "0 \<le> ?i" "?i < int (length (queue state))"
    using assms(4,5) by auto
  have n: "nextTrack fmul draws a state =
      Some (play_from_queue ''Next track failed'' a state ?i)"
    using assms by (rule next_sequential_all)
  show "\<exists>res i. nextTrack fmul draws a state = Some res
          \<and> i = (if currentQueueIndex state = int (length (queue state)) - 1 then 0
                  else currentQueueIndex state + 1)
          \<and> (\<not> rejected a \<longrightarrow>
                fst res =
                  state\<lparr>currentQueueIndex := i, currentTrack := Some (queue state ! nat i),
                        progress := 0,
                        duration := (case t_duration (queue state ! nat i) of
                                       Some d \<Rightarrow> d | None \<Rightarrow> 0),
                        isPlaying := True\<rparr>)
          \<and> (a = NoApi \<longrightarrow> snd res = [])
          \<and> (a = Resolved \<longrightarrow> snd res = [PlayTrackCall (t_path (queue state ! nat i))])
          \<and> (\<forall>msg. a = Rejected msg \<longrightarrow>
                res = (state\<lparr>error := Some msg\<rparr>,
                       [PlayTrackCall (t_path (queue state ! nat i)),
                        NotifyError ''Next track failed'' msg]))"
    unfolding n
    using play_from_queue_at [OF rng, of a "''Next track failed''"]
    by (intro exI [of _ "play_from_queue ''Next track failed'' a state ?i"] exI [of _ ?i]) blast
qed

theorem next_cycle_witness:
  "\<not> shuffle (queued [trackA, trackB, trackC] 1 ''all'' False)
   \<and> repeatMode (queued [trackA, trackB, trackC] 1 ''all'' False) = ''all''
   \<and> currentQueueIndex (queued [trackA, trackB, trackC] 1 ''all'' False) = 1
   \<and> length (filter (\<lambda>a. \<not> rejected a) [Resolved, Rejected ''busy'', NoApi, Resolved])
       = length (queue (queued [trackA, trackB, trackC] 1 ''all'' False))
   \<and> nextTrack_times exact_product [Resolved, Rejected ''busy'', NoApi, Resolved]
        (queued [trackA, trackB, trackC] 1 ''all'' False)
       = Some ((queued [trackA, trackB, trackC] 1 ''all'' False)
                 \<lparr>isPlaying := True, error := Some ''busy''\<rparr>)
   \<and> nextTrack exact_product [] Resolved (queued [trackA, trackB, trackC] 2 ''all'' False)
       = Some ((queued [trackA, trackB, trackC] 0 ''all'' False)
                 \<lparr>isPlaying := True, duration := 180\<rparr>,
               [PlayTrackCall ''/music/a.mp3''])"
proof -
  have h: "\<not> shuffle (queued [trackA, trackB, trackC] 1 ''all'' False)"
    "repeatMode (queued [trackA, trackB, trackC] 1 ''all'' False) = ''all''"
    "queue (queued [trackA, trackB, trackC] 1 ''all'' False) \<noteq> []"
    "0 \<le> currentQueueIndex (queued [trackA, trackB, trackC] 1 ''all'' False)"
    "currentQueueIndex (queued [trackA, trackB, trackC] 1 ''all'' False)
       < int (length (queue (queued [trackA, trackB, trackC] 1 ''all'' False)))"
    by (simp_all add: queued_def initialState_def)
  have c: "currentQueueIndex (queued [trackA, trackB, trackC] 1 ''all'' False) = 1"
    by (simp add: queued_def)
  have l: "length (filter (\<lambda>a. \<not> rejected a) [Resolved, Rejected ''busy'', NoApi, Resolved])
       = length (queue (queued [trackA, trackB, trackC] 1 ''all'' False))"
    by (simp add: rejected_def queued_def)
  have v: "nextTrack_times exact_product [Resolved, Rejected ''busy'', NoApi, Resolved]
        (queued [trackA, trackB, trackC] 1 ''all'' False)
       = Some ((queued [trackA, trackB, trackC] 1 ''all'' False)
                 \<lparr>isPlaying := True, error := Some ''busy''\<rparr>)"
    by (simp add: queued_def initialState_def nextTrack_def play_from_queue_def Let_def
        nth_js_def dispatch_def trackA_def trackB_def trackC_def)
  have w: "nextTrack exact_product [] Resolved (queued [trackA, trackB, trackC] 2 ''all'' False)
       = Some ((queued [trackA, trackB, trackC] 0 ''all'' False)
                 \<lparr>isPlaying := True, duration := 180\<rparr>,
               [PlayTrackCall ''/music/a.mp3''])"
    by (simp add: queued_def initialState_def nextTrack_def play_from_queue_def Let_def
        nth_js_def dispatch_def trackA_def trackB_def trackC_def)
  note t = next_cycle [OF h, of exact_product "[Resolved, Rejected ''busy'', NoApi, Resolved]"
      "[]" Resolved]
  show ?thesis
    using t h(1,2) c l v w by simp
qed

end
